theory Spec2Isabelle
  imports Main "HOL-Library.Multiset" "HOL-Library.List_Lexorder" "HOL-Library.Char_ord"
begin

section \<open>Platform values: text, numbers and clocks\<close>

text \<open>
  The server is glue between three platforms: the JavaScript runtime, the socket library and
  the SQL engine. Their values are modelled as follows.
  \<^item> Text is \<open>string\<close>; the engine compares TEXT values bytewise, which is the
    lexicographic order on \<open>char list\<close> used here (\<open>\<le>\<close> on strings).
  \<^item> An instant is an \<open>int\<close>: milliseconds since 1970-01-01T00:00:00Z, the time value
    of a JavaScript \<open>Date\<close> and the resolution of the engine's \<open>'now'\<close>.
  \<^item> A socket id is the text the socket library assigns to a connection.
\<close>

type_synonym socket_id = string
type_synonym instant = int

definition digit :: "nat \<Rightarrow> char" where
  "digit n = ''0123456789'' ! (n mod 10)"

fun show_nat :: "nat \<Rightarrow> string" where
  "show_nat n = (if n < 10 then [digit n] else show_nat (n div 10) @ [digit n])"

declare show_nat.simps [simp del]

text \<open>The text a template literal \<open>${n}\<close> produces for an integral number \<open>n\<close>.\<close>

definition show_int :: "int \<Rightarrow> string" where
  "show_int i = (if i < 0 then CHR ''-'' # show_nat (nat (- i)) else show_nat (nat i))"

definition pad2 :: "nat \<Rightarrow> string" where
  "pad2 n = [digit (n div 10), digit n]"

definition pad3 :: "nat \<Rightarrow> string" where
  "pad3 n = [digit (n div 100), digit (n div 10), digit n]"

definition pad4 :: "nat \<Rightarrow> string" where
  "pad4 n = [digit (n div 1000), digit (n div 100), digit (n div 10), digit n]"

definition pad6 :: "nat \<Rightarrow> string" where
  "pad6 n = [digit (n div 100000), digit (n div 10000), digit (n div 1000),
             digit (n div 100), digit (n div 10), digit n]"

text \<open>
  Year, month and day of a day number (days since 1970-01-01) in the proleptic Gregorian
  calendar, which both \<open>Date.prototype.toISOString\<close> and the engine's date functions use.
\<close>

definition civil_from_days :: "int \<Rightarrow> int \<times> int \<times> int" where
  "civil_from_days z0 =
     (let z = z0 + 719468;
          era = z div 146097;
          doe = z mod 146097;
          yoe = (doe - doe div 1460 + doe div 36524 - doe div 146096) div 365;
          doy = doe - (365 * yoe + yoe div 4 - yoe div 100);
          mp = (5 * doy + 2) div 153;
          d = doy - (153 * mp + 2) div 5 + 1;
          m = (if mp < 10 then mp + 3 else mp - 9);
          y = yoe + era * 400 + (if m \<le> 2 then 1 else 0)
      in (y, m, d))"

definition clock_text :: "nat \<Rightarrow> string" where
  "clock_text r = pad2 (r div 3600000) @ '':'' @ pad2 (r div 60000 mod 60) @ '':'' @
                  pad2 (r div 1000 mod 60)"

text \<open>
  \<open>new Date().toISOString()\<close> (server.js:279) at instant \<open>t\<close>:
  \<open>YYYY-MM-DDTHH:mm:ss.sssZ\<close>, with the six-digit signed year of ECMAScript outside
  the years 0 to 9999.
\<close>

definition toISOString :: "instant \<Rightarrow> string" where
  "toISOString t =
     (case civil_from_days (t div 86400000) of (y, m, d) \<Rightarrow>
        (if 0 \<le> y \<and> y \<le> 9999 then pad4 (nat y)
         else (if y < 0 then ''-'' else ''+'') @ pad6 (nat \<bar>y\<bar>)) @
        ''-'' @ pad2 (nat m) @ ''-'' @ pad2 (nat d) @ ''T'' @
        clock_text (nat (t mod 86400000)) @ ''.'' @ pad3 (nat (t mod 86400000) mod 1000) @ ''Z'')"

text \<open>
  The engine's \<open>datetime\<close> of an instant: \<open>YYYY-MM-DD HH:MM:SS\<close>, seconds truncated,
  and NULL (\<open>None\<close>) outside the Julian day range the engine represents
  (-4713-11-24 to 9999-12-31).
\<close>

definition sqlite_datetime :: "instant \<Rightarrow> string option" where
  "sqlite_datetime t =
     (if t + 210866760000000 < 0 \<or> 464269060799999 < t + 210866760000000 then None
      else case civil_from_days (t div 86400000) of (y, m, d) \<Rightarrow>
        Some ((if y < 0 then ''-'' else '''') @ pad4 (nat \<bar>y\<bar>) @
              ''-'' @ pad2 (nat m) @ ''-'' @ pad2 (nat d) @ '' '' @
              clock_text (nat (t mod 86400000))))"

text \<open>
  \<open>datetime('now', '-D days')\<close> where \<open>D\<close> is the text interpolated by the
  handlers: \<open>None\<close> stands for \<open>NaN\<close>. The modifier is malformed (the result NULL) for
  \<open>NaN\<close> and for a negative number, whose text gives \<open>--n days\<close>. The instant
  \<open>now\<close> is one the engine can represent.
\<close>

definition datetime_now_minus_days :: "instant \<Rightarrow> int option \<Rightarrow> string option" where
  "datetime_now_minus_days now d =
     (case d of
        None \<Rightarrow> None
      | Some n \<Rightarrow> if n < 0 then None else sqlite_datetime (now - n * 86400000))"

definition is_digit :: "char \<Rightarrow> bool" where
  "is_digit c = (c \<in> set ''0123456789'')"

text \<open>
  The engine's \<open>date(timestamp)\<close> on a stored timestamp. Every stored timestamp is an
  output of \<open>toISOString\<close>; on the 24-character form the calendar date is its first ten
  characters. Other text is taken as unparsable (NULL).
\<close>

definition sqlite_date :: "string \<Rightarrow> string option" where
  "sqlite_date ts =
     (if length ts = 24 \<and> ts ! 4 = CHR ''-'' \<and> ts ! 7 = CHR ''-'' \<and> ts ! 10 = CHR ''T'' \<and>
         ts ! 13 = CHR '':'' \<and> ts ! 16 = CHR '':'' \<and> ts ! 19 = CHR ''.'' \<and> ts ! 23 = CHR ''Z'' \<and>
         list_all is_digit (take 4 ts @ take 2 (drop 5 ts) @ take 2 (drop 8 ts) @
           take 2 (drop 11 ts) @ take 2 (drop 14 ts) @ take 2 (drop 17 ts) @ take 3 (drop 20 ts))
      then Some (take 10 ts) else None)"

section \<open>Data model\<close>

text \<open>JavaScript objects of the protocol (server.js:248, 278, 292-300, 377-381).\<close>

record user =
  studentId :: string
  name :: "string option"

record connected_user =
  cu_studentId :: string
  cu_name :: "string option"
  socketId :: socket_id

record message =
  msg_id :: int
  msg_content :: "string option"
  msg_timestamp :: string
  msg_user :: user

record user_entry =
  entry_studentId :: string
  entry_name :: "string option"
  online :: bool

text \<open>
  The payload of \<open>sendMessage\<close>: either field may be missing (\<open>undefined\<close>).
\<close>

record messageData =
  content :: "string option"
  user :: "user option"

text \<open>
  The payload of \<open>getMessages\<close>. The socket handler uses \<open>days\<close> as it arrives, so
  the field is a JSON number (an integer here) or a JSON string, or absent; the dates are
  text or absent.
\<close>

datatype js_value = Number int | Text string

record dateRange =
  days :: "js_value option"
  startDate :: "string option"
  endDate :: "string option"

text \<open>The query string of \<open>GET /api/messages\<close>: every field is text or absent.\<close>

record http_query =
  q_days :: "string option"
  q_startDate :: "string option"
  q_endDate :: "string option"

text \<open>Rows of the tables \<open>messages\<close> (server.js:62-70) and \<open>online_users\<close> (80-86).\<close>

record message_row =
  messages_id :: int
  messages_student_id :: string
  messages_user_name :: "string option"
  messages_content :: string
  messages_timestamp :: string

record online_row =
  online_student_id :: string
  online_user_name :: "string option"
  online_socket_id :: socket_id
  online_joined_at :: string

text \<open>
  The literals of the source that are not ASCII are named: the welcome text (server.js:272)
  and the three failure texts (221, 288, 329).
\<close>

datatype notice = WelcomeText | GetMessagesFailed | SendFailed | HistoryFailed

datatype out_event =
    UserJoined user
  | UserLeft user
  | UserListUpdate "user_entry list"
  | SystemMessage string notice
  | NewMessage message
  | MessageHistory "message list"
  | ErrorEvent notice

type_synonym emit = "socket_id \<times> out_event"

datatype js_error = TypeError

datatype db_error = ConstraintNotNull | EngineFailure

text \<open>
  The server: the sockets of the namespace (the open connections, in connection order), the
  map \<open>connectedUsers\<close> (server.js:122) and the database: the two tables and the
  AUTOINCREMENT counter of \<open>messages\<close>. \<open>init\<close> is a server that has just started
  on a new database.
\<close>

record server =
  sockets :: "socket_id list"
  connectedUsers :: "socket_id \<rightharpoonup> connected_user"
  messages :: "message_row list"
  messages_seq :: int
  online_users :: "online_row list"

definition init :: server where
  "init = \<lparr>sockets = [], connectedUsers = Map.empty, messages = [], messages_seq = 0,
           online_users = []\<rparr>"

section \<open>The socket library: who receives an emitted event\<close>

text \<open>
  \<open>io.emit\<close> reaches every socket of the namespace, \<open>socket.broadcast.emit\<close> every
  socket but the emitting one, \<open>socket.emit\<close> that socket alone. An emitted event is
  recorded with its recipient.
\<close>

definition io_emit :: "server \<Rightarrow> out_event \<Rightarrow> emit list" where
  "io_emit s e = map (\<lambda>k. (k, e)) (sockets s)"

definition broadcast_emit :: "server \<Rightarrow> socket_id \<Rightarrow> out_event \<Rightarrow> emit list" where
  "broadcast_emit s c e = map (\<lambda>k. (k, e)) (filter (\<lambda>k. k \<noteq> c) (sockets s))"

definition socket_emit :: "socket_id \<Rightarrow> out_event \<Rightarrow> emit list" where
  "socket_emit c e = [(c, e)]"

text \<open>What one connection observes of a list of emitted events, in order.\<close>

definition delivered :: "emit list \<Rightarrow> socket_id \<Rightarrow> out_event list" where
  "delivered out c = map snd (filter (\<lambda>p. fst p = c) out)"

text \<open>The active connections: open and joined.\<close>

definition active :: "server \<Rightarrow> socket_id list" where
  "active s = filter (\<lambda>k. connectedUsers s k \<noteq> None) (sockets s)"

section \<open>The SQL statements of the source\<close>

text \<open>
  \<open>INSERT OR REPLACE INTO online_users\<close> (server.js:255): \<open>student_id\<close> is the primary
  key, so the row with the same \<open>student_id\<close> is deleted and the new row inserted.
\<close>

definition insert_or_replace_online :: "online_row \<Rightarrow> online_row list \<Rightarrow> online_row list" where
  "insert_or_replace_online r rows =
     filter (\<lambda>x. online_student_id x \<noteq> online_student_id r) rows @ [r]"

text \<open>\<open>DELETE FROM online_users WHERE socket_id = ?\<close> (server.js:354).\<close>

definition delete_online_by_socket :: "socket_id \<Rightarrow> online_row list \<Rightarrow> online_row list" where
  "delete_online_by_socket c rows = filter (\<lambda>x. online_socket_id x \<noteq> c) rows"

text \<open>
  \<open>INSERT INTO messages\<close> (server.js:283). The statement fails when the engine does
  (\<open>engine_ok\<close> false: the file is locked, the disk is full) and when the bound content is
  missing, since the column is \<open>NOT NULL\<close>; a missing value is bound as NULL. On success
  the row gets the next AUTOINCREMENT id, which the callback reads as \<open>this.lastID\<close>.
\<close>

definition insert_message ::
  "server \<Rightarrow> string \<Rightarrow> string option \<Rightarrow> string option \<Rightarrow> string \<Rightarrow> bool \<Rightarrow> db_error + (server \<times> int)" where
  "insert_message s student uname cont ts engine_ok =
     (if \<not> engine_ok then Inl EngineFailure
      else case cont of
        None \<Rightarrow> Inl ConstraintNotNull
      | Some txt \<Rightarrow>
          let lastID = messages_seq s + 1 in
          Inr (s\<lparr>messages := messages s @
                   [\<lparr>messages_id = lastID, messages_student_id = student,
                     messages_user_name = uname, messages_content = txt,
                     messages_timestamp = ts\<rparr>],
                 messages_seq := lastID\<rparr>, lastID))"

subsection \<open>The text of the history query\<close>

text \<open>
  The WHERE clause the two history handlers append to \<open>SELECT * FROM messages\<close>, one
  constructor for each branch of server.js:204-212 and 314-322. \<open>TimestampSince d\<close> is the
  branch that interpolates the text \<open>d\<close> into the query text; the date branches bind
  their values as parameters.
\<close>

datatype where_clause =
    NoWhere
  | TimestampSince string
  | DateBetween string string
  | DateSince string

text \<open>The query text and the parameter array handed to \<open>db.all\<close>.\<close>

fun sql_text :: "where_clause \<Rightarrow> string \<times> string list" where
  "sql_text NoWhere =
     (''SELECT * FROM messages'' @ '' ORDER BY timestamp ASC LIMIT 1000'', [])"
| "sql_text (TimestampSince d) =
     (''SELECT * FROM messages'' @
      '' WHERE timestamp >= datetime('now', '-'' @ d @ '' days')'' @
      '' ORDER BY timestamp ASC LIMIT 1000'', [])"
| "sql_text (DateBetween a b) =
     (''SELECT * FROM messages'' @ '' WHERE date(timestamp) BETWEEN ? AND ?'' @
      '' ORDER BY timestamp ASC LIMIT 1000'', [a, b])"
| "sql_text (DateSince a) =
     (''SELECT * FROM messages'' @ '' WHERE date(timestamp) >= ?'' @
      '' ORDER BY timestamp ASC LIMIT 1000'', [a])"

text \<open>
  The two \<open>else if\<close> branches on \<open>startDate\<close> and \<open>endDate\<close>, the same in both
  handlers. A JavaScript string is truthy when it is present and not empty.
\<close>

fun date_where :: "string option \<Rightarrow> string option \<Rightarrow> where_clause" where
  "date_where (Some a) (Some b) =
     (if a \<noteq> [] \<and> b \<noteq> [] then DateBetween a b
      else if a \<noteq> [] then DateSince a
      else NoWhere)"
| "date_where (Some a) None = (if a \<noteq> [] then DateSince a else NoWhere)"
| "date_where None ed = NoWhere"

text \<open>
  \<open>dateRange.days && dateRange.days !== 0\<close>: a number passes when it is not 0, a string
  when it is not empty. The template literal \<open>${dateRange.days}\<close> then writes the number
  in decimal and a string as it is.
\<close>

fun days_given :: "js_value \<Rightarrow> bool" where
  "days_given (Number n) = (n \<noteq> 0)"
| "days_given (Text t) = (t \<noteq> [])"

fun interpolate :: "js_value \<Rightarrow> string" where
  "interpolate (Number n) = show_int n"
| "interpolate (Text t) = t"

text \<open>\<open>socket.on('getMessages')\<close>, server.js:311-324.\<close>

definition getMessages_where :: "dateRange \<Rightarrow> where_clause" where
  "getMessages_where dateRange =
     (case days dateRange of
        Some v \<Rightarrow> if days_given v then TimestampSince (interpolate v)
                  else date_where (startDate dateRange) (endDate dateRange)
      | None \<Rightarrow> date_where (startDate dateRange) (endDate dateRange))"

definition getMessages_query :: "dateRange \<Rightarrow> string \<times> string list" where
  "getMessages_query dateRange = sql_text (getMessages_where dateRange)"

text \<open>
  \<open>app.get('/api/messages')\<close>, server.js:200-214: \<open>days && days !== '0'\<close> holds for a
  text that is neither empty nor \<open>0\<close>, and then \<open>parseInt(days)\<close> is interpolated. The
  built-in \<open>parseInt\<close> is a parameter: it gives an integer or \<open>NaN\<close> (\<open>None\<close>).
\<close>

definition number_text :: "int option \<Rightarrow> string" where
  "number_text d = (case d of None \<Rightarrow> ''NaN'' | Some n \<Rightarrow> show_int n)"

definition api_messages_where :: "(string \<Rightarrow> int option) \<Rightarrow> http_query \<Rightarrow> where_clause" where
  "api_messages_where parseInt q =
     (case q_days q of
        Some d \<Rightarrow> if d \<noteq> [] \<and> d \<noteq> ''0'' then TimestampSince (number_text (parseInt d))
                  else date_where (q_startDate q) (q_endDate q)
      | None \<Rightarrow> date_where (q_startDate q) (q_endDate q))"

definition api_messages_query :: "(string \<Rightarrow> int option) \<Rightarrow> http_query \<Rightarrow> string \<times> string list" where
  "api_messages_query parseInt q = sql_text (api_messages_where parseInt q)"

subsection \<open>What the engine does with the query text\<close>

text \<open>
  The engine receives text, so its answer is a function of the text. The statements read
  here are those of the form
  \<open>SELECT * FROM messages [WHERE c OR ... OR c] [ORDER BY timestamp ASC|DESC] [LIMIT n]\<close>,
  where each \<open>c\<close> is one of the three conditions of the source or \<open>1=1\<close>, and where
  \<open>--\<close> outside a string literal starts a comment that runs to the end of the text. For
  any other text \<open>parse_statement\<close> is \<open>None\<close>: nothing is said about it.
\<close>

fun after_prefix :: "string \<Rightarrow> string \<Rightarrow> string option" where
  "after_prefix [] t = Some t"
| "after_prefix (p # ps) [] = None"
| "after_prefix (p # ps) (c # cs) = (if p = c then after_prefix ps cs else None)"

fun uncomment :: "bool \<Rightarrow> string \<Rightarrow> string" where
  "uncomment quoted [] = []"
| "uncomment quoted [c] = [c]"
| "uncomment quoted (c # d # cs) =
     (if c = CHR 0x27 then c # uncomment (\<not> quoted) (d # cs)
      else if \<not> quoted \<and> c = CHR ''-'' \<and> d = CHR ''-'' then []
      else c # uncomment quoted (d # cs))"

definition digit_value :: "char \<Rightarrow> nat" where
  "digit_value c = of_char c - 48"

definition parse_nat :: "string \<Rightarrow> nat option" where
  "parse_nat ds =
     (if ds = [] \<or> \<not> list_all is_digit ds then None
      else Some (foldl (\<lambda>a c. 10 * a + digit_value c) 0 ds))"

text \<open>A text of the form \<open>D days\<close> with \<open>D\<close> decimal digits.\<close>

definition count_days :: "string \<Rightarrow> nat option" where
  "count_days t =
     (if dropWhile is_digit t = '' days'' then parse_nat (takeWhile is_digit t) else None)"

text \<open>
  The modifier of \<open>datetime('now', modifier)\<close>. \<open>-D days\<close> goes back \<open>D\<close> days. The
  texts the handlers produce for a negative number and for \<open>NaN\<close>, \<open>--D days\<close> and
  \<open>-NaN days\<close>, are malformed, and \<open>datetime\<close> is then NULL (\<open>Some None\<close>). Other
  modifiers are not read.
\<close>

definition parse_modifier :: "string \<Rightarrow> nat option option" where
  "parse_modifier m =
     (case after_prefix ''-'' m of
        None \<Rightarrow> None
      | Some r \<Rightarrow>
          if r = ''NaN days'' then Some None
          else case after_prefix ''-'' r of
                 Some r2 \<Rightarrow> (case count_days r2 of Some n \<Rightarrow> Some None | None \<Rightarrow> None)
               | None \<Rightarrow> (case count_days r of Some n \<Rightarrow> Some (Some n) | None \<Rightarrow> None))"

text \<open>
  Conditions: \<open>Since d\<close> is \<open>timestamp >= datetime('now', modifier)\<close> with the modifier
  read as above; \<open>Between i j\<close> and \<open>DateGe i\<close> are the two date conditions with the
  positions of their \<open>?\<close> in the parameter array; \<open>Always\<close> is \<open>1=1\<close>.
\<close>

datatype cond = Always | Since "nat option" | Between nat nat | DateGe nat | Or cond cond

datatype ordering = Unordered | Ascending | Descending

record statement =
  st_where :: cond
  st_order :: ordering
  st_limit :: "nat option"

definition quote :: char where
  "quote = CHR 0x27"

definition parse_atom :: "nat \<Rightarrow> string \<Rightarrow> (cond \<times> nat \<times> string) option" where
  "parse_atom k t =
     (case after_prefix ''1=1'' t of
        Some r \<Rightarrow> Some (Always, k, r)
      | None \<Rightarrow>
     (case after_prefix ''date(timestamp) BETWEEN ? AND ?'' t of
        Some r \<Rightarrow> Some (Between k (k + 1), k + 2, r)
      | None \<Rightarrow>
     (case after_prefix ''date(timestamp) >= ?'' t of
        Some r \<Rightarrow> Some (DateGe k, k + 1, r)
      | None \<Rightarrow>
     (case after_prefix (''timestamp >= datetime('now', '' @ [quote]) t of
        None \<Rightarrow> None
      | Some r \<Rightarrow>
          (case after_prefix (quote # '')'') (dropWhile (\<lambda>c. c \<noteq> quote) r) of
             None \<Rightarrow> None
           | Some r' \<Rightarrow>
               (case parse_modifier (takeWhile (\<lambda>c. c \<noteq> quote) r) of
                  None \<Rightarrow> None
                | Some d \<Rightarrow> Some (Since d, k, r')))))))"

fun parse_cond :: "nat \<Rightarrow> nat \<Rightarrow> string \<Rightarrow> (cond \<times> string) option" where
  "parse_cond 0 k t = None"
| "parse_cond (Suc fuel) k t =
     (case parse_atom k t of
        None \<Rightarrow> None
      | Some (a, k', r) \<Rightarrow>
          (case after_prefix '' OR '' r of
             None \<Rightarrow> Some (a, r)
           | Some r' \<Rightarrow>
               (case parse_cond fuel k' r' of
                  None \<Rightarrow> None
                | Some (b, r'') \<Rightarrow> Some (Or a b, r''))))"

definition parse_where :: "string \<Rightarrow> (cond \<times> string) option" where
  "parse_where t =
     (case after_prefix '' WHERE '' t of
        None \<Rightarrow> Some (Always, t)
      | Some r \<Rightarrow> parse_cond (Suc (length r)) 0 r)"

definition parse_order :: "string \<Rightarrow> ordering \<times> string" where
  "parse_order t =
     (case after_prefix '' ORDER BY timestamp ASC'' t of
        Some r \<Rightarrow> (Ascending, r)
      | None \<Rightarrow>
          (case after_prefix '' ORDER BY timestamp DESC'' t of
             Some r \<Rightarrow> (Descending, r)
           | None \<Rightarrow> (Unordered, t)))"

definition blank :: "string \<Rightarrow> bool" where
  "blank t = list_all (\<lambda>c. c = CHR '' '') t"

definition parse_limit :: "string \<Rightarrow> nat option option" where
  "parse_limit t =
     (case after_prefix '' LIMIT '' t of
        None \<Rightarrow> if blank t then Some None else None
      | Some r \<Rightarrow>
          (case parse_nat (takeWhile is_digit r) of
             None \<Rightarrow> None
           | Some n \<Rightarrow> if blank (dropWhile is_digit r) then Some (Some n) else None))"

definition parse_statement :: "string \<Rightarrow> statement option" where
  "parse_statement text =
     (if CHR 0x0A \<in> set text then None
      else case after_prefix ''SELECT * FROM messages'' (uncomment False text) of
        None \<Rightarrow> None
      | Some t1 \<Rightarrow>
          (case parse_where t1 of
             None \<Rightarrow> None
           | Some (w, t2) \<Rightarrow>
               (case parse_order t2 of (ord, t3) \<Rightarrow>
                  (case parse_limit t3 of
                     None \<Rightarrow> None
                   | Some lim \<Rightarrow> Some \<lparr>st_where = w, st_order = ord, st_limit = lim\<rparr>))))"

text \<open>
  Which rows a condition selects when the engine's clock reads \<open>now\<close>. All operands are
  TEXT, so \<open>>=\<close> and \<open>BETWEEN\<close> compare text; a comparison with NULL selects nothing,
  and a \<open>?\<close> without a value in the parameter array is NULL.
\<close>

definition param :: "string list \<Rightarrow> nat \<Rightarrow> string option" where
  "param ps i = (if i < length ps then Some (ps ! i) else None)"

fun holds :: "instant \<Rightarrow> string list \<Rightarrow> cond \<Rightarrow> message_row \<Rightarrow> bool" where
  "holds now ps Always r = True"
| "holds now ps (Since d) r =
     (case datetime_now_minus_days now (map_option int d) of
        None \<Rightarrow> False
      | Some cutoff \<Rightarrow> cutoff \<le> messages_timestamp r)"
| "holds now ps (Between i j) r =
     (case sqlite_date (messages_timestamp r) of
        None \<Rightarrow> False
      | Some d \<Rightarrow>
          (case param ps i of
             None \<Rightarrow> False
           | Some a \<Rightarrow> (case param ps j of None \<Rightarrow> False | Some b \<Rightarrow> a \<le> d \<and> d \<le> b)))"
| "holds now ps (DateGe i) r =
     (case sqlite_date (messages_timestamp r) of
        None \<Rightarrow> False
      | Some d \<Rightarrow> (case param ps i of None \<Rightarrow> False | Some a \<Rightarrow> a \<le> d))"
| "holds now ps (Or a b) r = (holds now ps a r \<or> holds now ps b r)"

text \<open>
  \<open>ORDER BY timestamp\<close>: the rows are scanned in the order of their ids, and rows with
  equal timestamps keep the order of the scan, in both directions (the engine sorts on the
  column followed by the position in the scan). Without \<open>ORDER BY\<close> the rows come as
  scanned. \<open>LIMIT n\<close> keeps the first \<open>n\<close> rows.
\<close>

fun order_rows :: "ordering \<Rightarrow> message_row list \<Rightarrow> message_row list" where
  "order_rows Unordered rows = rows"
| "order_rows Ascending rows = sort_key messages_timestamp rows"
| "order_rows Descending rows = rev (sort_key messages_timestamp (rev rows))"

fun limit_rows :: "nat option \<Rightarrow> message_row list \<Rightarrow> message_row list" where
  "limit_rows None rows = rows"
| "limit_rows (Some n) rows = take n rows"

definition run_statement ::
  "instant \<Rightarrow> string list \<Rightarrow> message_row list \<Rightarrow> statement \<Rightarrow> message_row list" where
  "run_statement now ps rows st =
     limit_rows (st_limit st) (order_rows (st_order st) (filter (holds now ps (st_where st)) rows))"

text \<open>
  \<open>db.all(query, params, callback)\<close> on the table \<open>messages\<close>: what the callback
  receives. The environment supplies \<open>engine\<close>: \<open>Inl err\<close> when the engine fails (the
  file is locked, the disk fails), and otherwise \<open>Inr other\<close>, where \<open>other\<close> is the
  engine's answer to a text that is not read above and is not used for a text that is.
\<close>

definition db_all ::
  "instant \<Rightarrow> message_row list \<Rightarrow> string \<times> string list \<Rightarrow> db_error + message_row list \<Rightarrow>
   db_error + message_row list" where
  "db_all now rows query engine =
     (case engine of
        Inl err \<Rightarrow> Inl err
      | Inr other \<Rightarrow>
          (case parse_statement (fst query) of
             None \<Rightarrow> Inr other
           | Some st \<Rightarrow> Inr (run_statement now (snd query) rows st)))"

text \<open>
  The order the specification asks of a history: ascending by timestamp, equal timestamps
  by ascending id. It is stated on the messages a handler sends.
\<close>

definition ascending_by_timestamp_then_id :: "message list \<Rightarrow> bool" where
  "ascending_by_timestamp_then_id hist =
     sorted_wrt (\<lambda>a b. msg_timestamp a < msg_timestamp b \<or>
                       (msg_timestamp a = msg_timestamp b \<and> msg_id a \<le> msg_id b)) hist"

text \<open>
  \<open>SELECT * FROM online_users ORDER BY joined_at ASC\<close> (server.js:371). The listing
  the engine gives is an input of the model; this predicate says which listings it may
  give: the rows of the table in ascending order of \<open>joined_at\<close>.
\<close>

definition select_online_users :: "server \<Rightarrow> online_row list \<Rightarrow> bool" where
  "select_online_users s ordered =
     (mset ordered = mset (online_users s) \<and> sorted (map online_joined_at ordered))"

section \<open>The handlers\<close>

text \<open>
  Each handler is a function of the server state, the connection, the payload and what the
  environment supplies to it: the clock reading and what the engine does with the statement
  whose callback takes \<open>err\<close>. The callbacks of a handler run before the next event is
  handled, and the statements on \<open>online_users\<close> that the source issues without a callback
  succeed.
\<close>

definition format_message :: "message_row \<Rightarrow> message" where
  "format_message msg =
     \<lparr>msg_id = messages_id msg, msg_content = Some (messages_content msg),
      msg_timestamp = messages_timestamp msg,
      msg_user = \<lparr>studentId = messages_student_id msg, name = messages_user_name msg\<rparr>\<rparr>"

text \<open>\<open>updateUserList\<close>, server.js:370-385.\<close>

definition updateUserList :: "server \<Rightarrow> db_error + online_row list \<Rightarrow> emit list" where
  "updateUserList s answer =
     (case answer of
        Inl err \<Rightarrow> []
      | Inr users \<Rightarrow>
          io_emit s (UserListUpdate (map (\<lambda>u. \<lparr>entry_studentId = online_student_id u,
                                               entry_name = online_user_name u,
                                               online = True\<rparr>) users)))"

text \<open>
  \<open>socket.on('join')\<close>, server.js:247-274. \<open>current_timestamp\<close> is the engine's
  \<open>CURRENT_TIMESTAMP\<close>, the default of \<open>joined_at\<close>.
\<close>

definition join ::
  "server \<Rightarrow> socket_id \<Rightarrow> user \<Rightarrow> string \<Rightarrow> db_error + online_row list \<Rightarrow> server \<times> emit list" where
  "join s c userInfo current_timestamp answer =
     (let s' = s\<lparr>connectedUsers := (connectedUsers s)
                    (c \<mapsto> \<lparr>cu_studentId = studentId userInfo, cu_name = name userInfo,
                            socketId = c\<rparr>),
                  online_users := insert_or_replace_online
                    \<lparr>online_student_id = studentId userInfo, online_user_name = name userInfo,
                     online_socket_id = c, online_joined_at = current_timestamp\<rparr>
                    (online_users s)\<rparr>
      in (s', broadcast_emit s' c
                (UserJoined \<lparr>studentId = studentId userInfo, name = name userInfo\<rparr>) @
              socket_emit c (SystemMessage ''welcome'' WelcomeText) @
              updateUserList s' answer))"

text \<open>
  \<open>socket.on('sendMessage')\<close>, server.js:277-307. Reading \<open>user.studentId\<close> of a
  missing \<open>user\<close> raises a TypeError before the statement is issued; nothing in the source
  catches it.
\<close>

definition sendMessage ::
  "server \<Rightarrow> socket_id \<Rightarrow> messageData \<Rightarrow> instant \<Rightarrow> bool \<Rightarrow> js_error + server \<times> emit list" where
  "sendMessage s c messageData now engine_ok =
     (let timestamp = toISOString now in
      case user messageData of
        None \<Rightarrow> Inl TypeError
      | Some u \<Rightarrow>
          (case insert_message s (studentId u) (name u) (content messageData) timestamp engine_ok of
             Inl err \<Rightarrow> Inr (s, socket_emit c (ErrorEvent SendFailed))
           | Inr (s', lastID) \<Rightarrow>
               Inr (s', io_emit s'
                     (NewMessage \<lparr>msg_id = lastID, msg_content = content messageData,
                                  msg_timestamp = timestamp,
                                  msg_user = \<lparr>studentId = studentId u, name = name u\<rparr>\<rparr>))))"

text \<open>
  \<open>socket.on('getMessages')\<close>, server.js:310-345: the query is built from the payload,
  handed to \<open>db.all\<close>, and the callback replies to the requesting socket.
\<close>

definition getMessages ::
  "server \<Rightarrow> socket_id \<Rightarrow> dateRange \<Rightarrow> instant \<Rightarrow> db_error + message_row list \<Rightarrow> emit list" where
  "getMessages s c dateRange now engine =
     (case db_all now (messages s) (getMessages_query dateRange) engine of
        Inl err \<Rightarrow> socket_emit c (ErrorEvent HistoryFailed)
      | Inr msgs \<Rightarrow> socket_emit c (MessageHistory (map format_message msgs)))"

text \<open>\<open>app.get('/api/messages')\<close>, server.js:199-240, likewise.\<close>

datatype http_response = Status500 notice | Json200 "message list"

definition api_messages ::
  "(string \<Rightarrow> int option) \<Rightarrow> server \<Rightarrow> http_query \<Rightarrow> instant \<Rightarrow> db_error + message_row list \<Rightarrow>
   http_response" where
  "api_messages parseInt s q now engine =
     (case db_all now (messages s) (api_messages_query parseInt q) engine of
        Inl err \<Rightarrow> Status500 GetMessagesFailed
      | Inr msgs \<Rightarrow> Json200 (map format_message msgs))"

text \<open>
  \<open>socket.on('disconnect')\<close>, server.js:348-367. The socket library has removed the
  socket from the namespace when the handler runs (see \<open>step\<close>).
\<close>

definition disconnect ::
  "server \<Rightarrow> socket_id \<Rightarrow> db_error + online_row list \<Rightarrow> server \<times> emit list" where
  "disconnect s c answer =
     (case connectedUsers s c of
        None \<Rightarrow> (s, [])
      | Some u \<Rightarrow>
          let s' = s\<lparr>online_users := delete_online_by_socket c (online_users s),
                     connectedUsers := (connectedUsers s)(c := None)\<rparr>
          in (s', broadcast_emit s' c
                    (UserLeft \<lparr>studentId = cu_studentId u, name = cu_name u\<rparr>) @
                  updateUserList s' answer))"

section \<open>Events and runs\<close>

text \<open>
  An event of the server with what the environment supplies to its handler: clock readings,
  for \<open>Join\<close> and \<open>Disconnect\<close> the engine's listing of \<open>online_users\<close> (or its
  error), for \<open>GetMessages\<close> the engine's clock and the \<open>engine\<close> input of \<open>db_all\<close>.
\<close>

datatype event =
    Connect socket_id
  | Join socket_id user string "db_error + online_row list"
  | SendMessage socket_id messageData instant bool
  | GetMessages socket_id dateRange instant "db_error + message_row list"
  | Disconnect socket_id "db_error + online_row list"

fun step :: "server \<Rightarrow> event \<Rightarrow> js_error + server \<times> emit list" where
  "step s (Connect c) =
     Inr (if c \<in> set (sockets s) then s else s\<lparr>sockets := sockets s @ [c]\<rparr>, [])"
| "step s (Join c userInfo current_timestamp answer) =
     Inr (join s c userInfo current_timestamp answer)"
| "step s (SendMessage c messageData now engine_ok) = sendMessage s c messageData now engine_ok"
| "step s (GetMessages c dateRange now engine) =
     Inr (s, getMessages s c dateRange now engine)"
| "step s (Disconnect c answer) =
     Inr (disconnect (s\<lparr>sockets := removeAll c (sockets s)\<rparr>) c answer)"

text \<open>A run stops at the first exception that leaves a handler.\<close>

fun run :: "server \<Rightarrow> event list \<Rightarrow> js_error + server" where
  "run s [] = Inr s"
| "run s (e # es) = (case step s e of Inl err \<Rightarrow> Inl err | Inr (s', out) \<Rightarrow> run s' es)"

text \<open>Whether the listing carried by an event is one the engine may give in \<open>s\<close>.\<close>

fun answer_ok :: "server \<Rightarrow> event \<Rightarrow> bool" where
  "answer_ok s (Join c userInfo current_timestamp (Inr ordered)) =
     select_online_users (fst (join s c userInfo current_timestamp (Inr ordered))) ordered"
| "answer_ok s (Disconnect c (Inr ordered)) =
     select_online_users
       (fst (disconnect (s\<lparr>sockets := removeAll c (sockets s)\<rparr>) c (Inr ordered))) ordered"
| "answer_ok s e = True"

fun connection_of :: "event \<Rightarrow> socket_id" where
  "connection_of (Connect c) = c"
| "connection_of (Join c userInfo current_timestamp answer) = c"
| "connection_of (SendMessage c messageData now engine_ok) = c"
| "connection_of (GetMessages c dateRange now answer) = c"
| "connection_of (Disconnect c answer) = c"

fun is_join :: "event \<Rightarrow> bool" where
  "is_join (Join c userInfo current_timestamp answer) = True"
| "is_join e = False"

fun is_disconnect :: "event \<Rightarrow> bool" where
  "is_disconnect (Disconnect c answer) = True"
| "is_disconnect e = False"

text \<open>The connections that have left in a sequence of events.\<close>

definition left_connections :: "event list \<Rightarrow> socket_id list" where
  "left_connections es = map connection_of (filter is_disconnect es)"

text \<open>
  Runs without the replace-on-join quirk: every join is by a connection that is not joined,
  for a user who is not in \<open>online_users\<close>, and every disconnect is by a joined
  connection.
\<close>

fun regular_event :: "server \<Rightarrow> event \<Rightarrow> bool" where
  "regular_event s (Join c userInfo current_timestamp answer) =
     (connectedUsers s c = None \<and>
      studentId userInfo \<notin> set (map online_student_id (online_users s)))"
| "regular_event s (Disconnect c answer) = (connectedUsers s c \<noteq> None)"
| "regular_event s e = True"

fun regular_run :: "server \<Rightarrow> event list \<Rightarrow> bool" where
  "regular_run s [] = True"
| "regular_run s (e # es) =
     (regular_event s e \<and>
      (case step s e of Inl err \<Rightarrow> False | Inr (s', out) \<Rightarrow> regular_run s' es))"

text \<open>The transport delivers no event of a connection after its disconnect.\<close>

fun silent_after_leave :: "event list \<Rightarrow> bool" where
  "silent_after_leave [] = True"
| "silent_after_leave (e # es) =
     ((is_disconnect e \<longrightarrow> connection_of e \<notin> set (map connection_of es)) \<and>
      silent_after_leave es)"

text \<open>
  Events that leave the entry of connection \<open>c\<close> in \<open>connectedUsers\<close> alone, and
  events that leave a row of user \<open>u\<close> held by connection \<open>c\<close> in \<open>online_users\<close>.
\<close>

definition keeps_connection :: "socket_id \<Rightarrow> event \<Rightarrow> bool" where
  "keeps_connection c e = (\<not> ((is_join e \<or> is_disconnect e) \<and> connection_of e = c))"

fun keeps_row :: "socket_id \<Rightarrow> string \<Rightarrow> event \<Rightarrow> bool" where
  "keeps_row c u (Join c' userInfo current_timestamp answer) = (studentId userInfo = u \<longrightarrow> c' = c)"
| "keeps_row c u (Disconnect c' answer) = (c' \<noteq> c)"
| "keeps_row c u e = True"

text \<open>
  What holds of the presence data along regular runs: the rows of \<open>online_users\<close> are
  held by distinct connections, and these are the connections in \<open>connectedUsers\<close>.
\<close>

definition presence_inv :: "server \<Rightarrow> bool" where
  "presence_inv s =
     (distinct (map online_socket_id (online_users s)) \<and>
      set (map online_socket_id (online_users s)) = dom (connectedUsers s))"

text \<open>
  The rows of \<open>messages\<close> are stored in ascending order of their ids, none above the
  AUTOINCREMENT counter.
\<close>

definition ids_ascending :: "server \<Rightarrow> bool" where
  "ids_ascending s =
     (sorted (map messages_id (messages s)) \<and>
      (\<forall>r \<in> set (messages s). messages_id r \<le> messages_seq s))"

section \<open>Basic facts about runs and emitted events\<close>

lemma run_append:
  "run s (es @ fs) = (case run s es of Inl err \<Rightarrow> Inl err | Inr s' \<Rightarrow> run s' fs)"
  by (induction es arbitrary: s) (auto split: sum.splits prod.splits)

lemma run_Cons_Inr:
  "run s (e # es) = Inr s' \<Longrightarrow> \<exists>s1 out. step s e = Inr (s1, out) \<and> run s1 es = Inr s'"
  by (auto split: sum.splits prod.splits)

lemma delivered_map_absent:
  "k \<notin> set ks \<Longrightarrow> delivered (map (\<lambda>k. (k, e)) ks) k = []"
  by (induction ks) (auto simp: delivered_def)

lemma delivered_map_distinct:
  "distinct ks \<Longrightarrow> k \<in> set ks \<Longrightarrow> delivered (map (\<lambda>k. (k, e)) ks) k = [e]"
proof (induction ks)
  case Nil
  then show ?case by simp
next
  case (Cons a ks)
  show ?case
  proof (cases "a = k")
    case True
    then have "k \<notin> set ks" using Cons.prems by simp
    then have "delivered (map (\<lambda>k. (k, e)) ks) k = []" by (rule delivered_map_absent)
    then show ?thesis using True by (simp add: delivered_def)
  next
    case False
    then show ?thesis using Cons by (simp add: delivered_def)
  qed
qed

lemma active_subset: "k \<in> set (active s) \<Longrightarrow> k \<in> set (sockets s)"
  by (simp add: active_def)

lemma insert_message_sockets:
  "insert_message s a b cnt ts ok = Inr (s', i) \<Longrightarrow> sockets s' = sockets s"
  by (auto simp: insert_message_def Let_def split: if_splits option.splits)

lemma sendMessage_presence:
  "sendMessage s c md now ok = Inr (s', out) \<Longrightarrow>
   online_users s' = online_users s \<and> connectedUsers s' = connectedUsers s \<and> sockets s' = sockets s"
  by (auto simp: sendMessage_def insert_message_def Let_def split: option.splits if_splits sum.splits)

lemma join_state:
  assumes "join s c u t a = (s1, out)"
  shows "online_users s1 =
           insert_or_replace_online \<lparr>online_student_id = studentId u, online_user_name = name u,
             online_socket_id = c, online_joined_at = t\<rparr> (online_users s)"
    and "connectedUsers s1 =
           (connectedUsers s)(c \<mapsto> \<lparr>cu_studentId = studentId u, cu_name = name u, socketId = c\<rparr>)"
    and "sockets s1 = sockets s"
  using assms by (auto simp: join_def Let_def)

lemma disconnect_state:
  assumes "disconnect s c a = (s1, out)"
  shows "online_users s1 =
           (if connectedUsers s c = None then online_users s
            else delete_online_by_socket c (online_users s))"
    and "connectedUsers s1 = (connectedUsers s)(c := None)"
    and "sockets s1 = sockets s"
  using assms by (auto simp: disconnect_def Let_def split: option.splits)

text \<open>The sockets of the namespace stay distinct: the namespace is keyed by socket id.\<close>

lemma step_distinct_sockets:
  assumes "step s e = Inr (s1, out)" and "distinct (sockets s)"
  shows "distinct (sockets s1)"
  using assms
  by (cases e) (auto simp: join_state(3) disconnect_state(3) distinct_removeAll
                 dest: sendMessage_presence split: if_splits)

lemma run_distinct_sockets:
  "run s es = Inr s' \<Longrightarrow> distinct (sockets s) \<Longrightarrow> distinct (sockets s')"
proof (induction es arbitrary: s)
  case Nil
  then show ?case by simp
next
  case (Cons e es)
  from Cons.prems(1) obtain s1 out where "step s e = Inr (s1, out)" and "run s1 es = Inr s'"
    using run_Cons_Inr by blast
  then show ?case using Cons.IH Cons.prems(2) step_distinct_sockets by blast
qed

subsection \<open>Concrete clock readings\<close>

lemma civil_19723: "civil_from_days 19723 = (2024, 1, 1)"
  by code_simp

lemmas text_defs = pad2_def pad3_def pad4_def clock_text_def digit_def

lemma toISOString_example: "toISOString 1704067201000 = ''2024-01-01T00:00:01.000Z''"
  by (simp add: toISOString_def civil_19723 text_defs)

lemma sqlite_datetime_example: "sqlite_datetime 1704110400000 = Some ''2024-01-01 12:00:00''"
  by (simp add: sqlite_datetime_def civil_19723 text_defs)

lemma cutoff_example:
  "datetime_now_minus_days 1704715200000 (Some 7) = Some ''2024-01-01 12:00:00''"
  by (simp add: datetime_now_minus_days_def sqlite_datetime_example)

lemma show_int_7: "show_int 7 = ''7''"
  by code_simp

lemma show_int_30: "show_int 30 = ''30''"
  by code_simp

section \<open>Sending a message\<close>

text \<open>
  C1. A \<open>sendMessage\<close> on an active connection whose payload carries a user: when the
  append to the store succeeds, the state is the store's new state, whose last row has the
  id the store assigned, and every active connection, the sender among them, is delivered
  exactly one \<open>newMessage\<close> with that id, the timestamp taken at the send, the content
  and the user of the payload; no connection outside the namespace is delivered anything.
  When the append fails, the state is unchanged and the only event is one \<open>error\<close> to
  the sender.
\<close>

theorem sendMessage_outcome:
  assumes "distinct (sockets s)" and "c \<in> set (active s)" and "user messageData = Some u"
  shows "case insert_message s (studentId u) (name u) (content messageData) (toISOString now) engine_ok of
           Inl err \<Rightarrow>
             sendMessage s c messageData now engine_ok = Inr (s, [(c, ErrorEvent SendFailed)])
         | Inr (s', lastID) \<Rightarrow>
             (\<exists>out. sendMessage s c messageData now engine_ok = Inr (s', out) \<and>
                (\<forall>k \<in> set (active s). delivered out k =
                   [NewMessage \<lparr>msg_id = lastID, msg_content = content messageData,
                                msg_timestamp = toISOString now, msg_user = u\<rparr>]) \<and>
                (\<forall>k. k \<notin> set (sockets s) \<longrightarrow> delivered out k = []) \<and>
                messages_id (last (messages s')) = lastID \<and>
                butlast (messages s') = messages s)"
proof (cases "insert_message s (studentId u) (name u) (content messageData) (toISOString now) engine_ok")
  case (Inl err)
  then show ?thesis using assms(3) by (simp add: sendMessage_def socket_emit_def)
next
  case (Inr p)
  obtain s' lastID where p: "p = (s', lastID)" by (cases p)
  have sk: "sockets s' = sockets s" using Inr p insert_message_sockets by blast
  have row: "messages_id (last (messages s')) = lastID \<and> butlast (messages s') = messages s"
    using Inr p by (auto simp: insert_message_def Let_def split: if_splits option.splits)
  show ?thesis using Inr p assms sk row
    by (auto simp: sendMessage_def io_emit_def delivered_map_distinct delivered_map_absent active_subset)
qed

theorem sendMessage_outcome_witness:
  "distinct (sockets (init\<lparr>sockets := [''a'', ''b''],
      connectedUsers := [''a'' \<mapsto> \<lparr>cu_studentId = ''2021001'', cu_name = None, socketId = ''a''\<rparr>]\<rparr>)) \<and>
   ''a'' \<in> set (active (init\<lparr>sockets := [''a'', ''b''],
      connectedUsers := [''a'' \<mapsto> \<lparr>cu_studentId = ''2021001'', cu_name = None, socketId = ''a''\<rparr>]\<rparr>)) \<and>
   user \<lparr>content = Some ''hi'', user = Some \<lparr>studentId = ''2021001'', name = None\<rparr>\<rparr> =
     Some \<lparr>studentId = ''2021001'', name = None\<rparr> \<and>
   (\<exists>s' out.
      sendMessage (init\<lparr>sockets := [''a'', ''b''],
          connectedUsers := [''a'' \<mapsto> \<lparr>cu_studentId = ''2021001'', cu_name = None, socketId = ''a''\<rparr>]\<rparr>)
        ''a'' \<lparr>content = Some ''hi'', user = Some \<lparr>studentId = ''2021001'', name = None\<rparr>\<rparr>
        1704067201000 True = Inr (s', out) \<and>
      delivered out ''a'' =
        [NewMessage \<lparr>msg_id = 1, msg_content = Some ''hi'',
                     msg_timestamp = ''2024-01-01T00:00:01.000Z'',
                     msg_user = \<lparr>studentId = ''2021001'', name = None\<rparr>\<rparr>] \<and>
      map messages_id (messages s') = [1]) \<and>
   sendMessage (init\<lparr>sockets := [''a'', ''b''],
       connectedUsers := [''a'' \<mapsto> \<lparr>cu_studentId = ''2021001'', cu_name = None, socketId = ''a''\<rparr>]\<rparr>)
     ''a'' \<lparr>content = Some ''hi'', user = Some \<lparr>studentId = ''2021001'', name = None\<rparr>\<rparr>
     1704067201000 False =
   Inr (init\<lparr>sockets := [''a'', ''b''],
          connectedUsers := [''a'' \<mapsto> \<lparr>cu_studentId = ''2021001'', cu_name = None, socketId = ''a''\<rparr>]\<rparr>,
        [(''a'', ErrorEvent SendFailed)])"
proof -
  let ?s = "init\<lparr>sockets := [''a'', ''b''],
      connectedUsers := [''a'' \<mapsto> \<lparr>cu_studentId = ''2021001'', cu_name = None, socketId = ''a''\<rparr>]\<rparr>"
  let ?u = "\<lparr>studentId = ''2021001'', name = None\<rparr>"
  let ?md = "\<lparr>content = Some ''hi'', user = Some ?u\<rparr>"
  have h1: "distinct (sockets ?s)" by simp
  have h2: "''a'' \<in> set (active ?s)" by (simp add: active_def)
  have h3: "user ?md = Some ?u" by simp
  have ok: "insert_message ?s (studentId ?u) (name ?u) (content ?md) (toISOString 1704067201000) True =
      Inr (?s\<lparr>messages := [\<lparr>messages_id = 1, messages_student_id = ''2021001'',
              messages_user_name = None, messages_content = ''hi'',
              messages_timestamp = ''2024-01-01T00:00:01.000Z''\<rparr>], messages_seq := 1\<rparr>, 1)"
    by (simp add: insert_message_def init_def toISOString_example)
  have bad: "insert_message ?s (studentId ?u) (name ?u) (content ?md) (toISOString 1704067201000) False =
      Inl EngineFailure"
    by (simp add: insert_message_def)
  have a: "\<exists>s' out. sendMessage ?s ''a'' ?md 1704067201000 True = Inr (s', out) \<and>
      delivered out ''a'' = [NewMessage \<lparr>msg_id = 1, msg_content = Some ''hi'',
                     msg_timestamp = ''2024-01-01T00:00:01.000Z'', msg_user = ?u\<rparr>] \<and>
      map messages_id (messages s') = [1]"
    using sendMessage_outcome [OF h1 h2 h3, where now = 1704067201000 and engine_ok = True] h2
    unfolding ok by (auto simp: toISOString_example)
  have b: "sendMessage ?s ''a'' ?md 1704067201000 False = Inr (?s, [(''a'', ErrorEvent SendFailed)])"
    using sendMessage_outcome [OF h1 h2 h3, where now = 1704067201000 and engine_ok = False]
    unfolding bad by simp
  show ?thesis using h1 h2 h3 a b by blast
qed

text \<open>
  C5. A \<open>sendMessage\<close> whose payload has no \<open>user\<close> field: the handler raises a
  TypeError before it reaches the store. There is no append and no broadcast, but also no
  \<open>error\<close> event to the sender, and the exception leaves the handler.
\<close>

theorem sendMessage_missing_user:
  "sendMessage s c \<lparr>content = cnt, user = None\<rparr> now engine_ok = Inl TypeError"
  by (simp add: sendMessage_def)

text \<open>
  A payload that has a user but no \<open>content\<close> is rejected by the store (the column is
  \<open>NOT NULL\<close>), and the failure is reported to the sender alone.
\<close>

lemma sendMessage_missing_content:
  "sendMessage s c \<lparr>content = None, user = Some u\<rparr> now engine_ok =
     Inr (s, [(c, ErrorEvent SendFailed)])"
  by (simp add: sendMessage_def insert_message_def socket_emit_def Let_def)

lemma run_stops_at_missing_user:
  "run s (SendMessage c \<lparr>content = cnt, user = None\<rparr> now engine_ok # es) = Inl TypeError"
  by (simp add: sendMessage_def)

section \<open>History queries\<close>

lemmas parse_defs = parse_statement_def parse_where_def parse_order_def parse_limit_def
  parse_nat_def blank_def is_digit_def digit_value_def parse_atom_def parse_modifier_def
  count_days_def quote_def

lemma parse_plain:
  "parse_statement ''SELECT * FROM messages ORDER BY timestamp ASC LIMIT 1000'' =
     Some \<lparr>st_where = Always, st_order = Ascending, st_limit = Some 1000\<rparr>"
  by (simp add: parse_defs)

lemma db_all_plain:
  "db_all now rows (''SELECT * FROM messages ORDER BY timestamp ASC LIMIT 1000'', ps) (Inr other) =
     Inr (take 1000 (sort_key messages_timestamp rows))"
  by (simp add: db_all_def parse_plain run_statement_def)

lemma parse_injected:
  "parse_statement
     ''SELECT * FROM messages WHERE timestamp >= datetime('now', '-0 days') OR 1=1 ORDER BY timestamp DESC -- days') ORDER BY timestamp ASC LIMIT 1000'' =
     Some \<lparr>st_where = Or (Since (Some 0)) Always, st_order = Descending, st_limit = None\<rparr>"
  by (simp add: parse_defs)

lemma db_all_injected:
  "db_all now rows
     (''SELECT * FROM messages WHERE timestamp >= datetime('now', '-0 days') OR 1=1 ORDER BY timestamp DESC -- days') ORDER BY timestamp ASC LIMIT 1000'', ps)
     (Inr other) = Inr (rev (sort_key messages_timestamp (rev rows)))"
  by (simp add: db_all_def parse_injected run_statement_def)

lemma getMessages_query_injected:
  "getMessages_query
     \<lparr>days = Some (Text ''0 days') OR 1=1 ORDER BY timestamp DESC --''),
      startDate = sd, endDate = ed\<rparr> =
     (''SELECT * FROM messages WHERE timestamp >= datetime('now', '-0 days') OR 1=1 ORDER BY timestamp DESC -- days') ORDER BY timestamp ASC LIMIT 1000'', [])"
  by (simp add: getMessages_query_def getMessages_where_def)

lemma getMessages_injected:
  "getMessages s c
     \<lparr>days = Some (Text ''0 days') OR 1=1 ORDER BY timestamp DESC --''),
      startDate = sd, endDate = ed\<rparr> now (Inr other) =
     [(c, MessageHistory (map format_message (rev (sort_key messages_timestamp (rev (messages s))))))]"
  by (simp add: getMessages_def getMessages_query_injected db_all_injected socket_emit_def)

lemma toISOString_example2: "toISOString 1704067202000 = ''2024-01-01T00:00:02.000Z''"
  by (simp add: toISOString_def civil_19723 text_defs)

text \<open>
  C2. The socket handler writes \<open>days\<close> into the query text as it arrives. For the text
  \<open>0 days') OR 1=1 ORDER BY timestamp DESC --\<close> the query the engine receives selects
  every row, orders by timestamp descending, and has the handler's own
  \<open>ORDER BY timestamp ASC LIMIT 1000\<close> inside a comment. On a store of two messages the
  history sent is the later message first; on every store it is all stored messages,
  however many, in descending order.
\<close>

theorem getMessages_injected_days_descending_uncapped:
  "run init
     [Connect ''a'',
      SendMessage ''a'' \<lparr>content = Some ''hi'', user = Some \<lparr>studentId = ''2021001'', name = None\<rparr>\<rparr>
        1704067201000 True,
      SendMessage ''a'' \<lparr>content = Some ''ho'', user = Some \<lparr>studentId = ''2021001'', name = None\<rparr>\<rparr>
        1704067202000 True] =
   Inr \<lparr>sockets = [''a''], connectedUsers = Map.empty,
        messages =
          [\<lparr>messages_id = 1, messages_student_id = ''2021001'', messages_user_name = None,
            messages_content = ''hi'', messages_timestamp = ''2024-01-01T00:00:01.000Z''\<rparr>,
           \<lparr>messages_id = 2, messages_student_id = ''2021001'', messages_user_name = None,
            messages_content = ''ho'', messages_timestamp = ''2024-01-01T00:00:02.000Z''\<rparr>],
        messages_seq = 2, online_users = []\<rparr> \<and>
   getMessages_query
     \<lparr>days = Some (Text ''0 days') OR 1=1 ORDER BY timestamp DESC --''),
      startDate = None, endDate = None\<rparr> =
     (''SELECT * FROM messages WHERE timestamp >= datetime('now', '-0 days') OR 1=1 ORDER BY timestamp DESC -- days') ORDER BY timestamp ASC LIMIT 1000'', []) \<and>
   step
     \<lparr>sockets = [''a''], connectedUsers = Map.empty,
        messages =
          [\<lparr>messages_id = 1, messages_student_id = ''2021001'', messages_user_name = None,
            messages_content = ''hi'', messages_timestamp = ''2024-01-01T00:00:01.000Z''\<rparr>,
           \<lparr>messages_id = 2, messages_student_id = ''2021001'', messages_user_name = None,
            messages_content = ''ho'', messages_timestamp = ''2024-01-01T00:00:02.000Z''\<rparr>],
        messages_seq = 2, online_users = []\<rparr>
     (GetMessages ''a''
        \<lparr>days = Some (Text ''0 days') OR 1=1 ORDER BY timestamp DESC --''),
         startDate = None, endDate = None\<rparr> 1704067203000 (Inr [])) =
   Inr (\<lparr>sockets = [''a''], connectedUsers = Map.empty,
        messages =
          [\<lparr>messages_id = 1, messages_student_id = ''2021001'', messages_user_name = None,
            messages_content = ''hi'', messages_timestamp = ''2024-01-01T00:00:01.000Z''\<rparr>,
           \<lparr>messages_id = 2, messages_student_id = ''2021001'', messages_user_name = None,
            messages_content = ''ho'', messages_timestamp = ''2024-01-01T00:00:02.000Z''\<rparr>],
        messages_seq = 2, online_users = []\<rparr>,
        [(''a'', MessageHistory
           [\<lparr>msg_id = 2, msg_content = Some ''ho'', msg_timestamp = ''2024-01-01T00:00:02.000Z'',
             msg_user = \<lparr>studentId = ''2021001'', name = None\<rparr>\<rparr>,
            \<lparr>msg_id = 1, msg_content = Some ''hi'', msg_timestamp = ''2024-01-01T00:00:01.000Z'',
             msg_user = \<lparr>studentId = ''2021001'', name = None\<rparr>\<rparr>])]) \<and>
   \<not> ascending_by_timestamp_then_id
       [\<lparr>msg_id = 2, msg_content = Some ''ho'', msg_timestamp = ''2024-01-01T00:00:02.000Z'',
         msg_user = \<lparr>studentId = ''2021001'', name = None\<rparr>\<rparr>,
        \<lparr>msg_id = 1, msg_content = Some ''hi'', msg_timestamp = ''2024-01-01T00:00:01.000Z'',
         msg_user = \<lparr>studentId = ''2021001'', name = None\<rparr>\<rparr>] \<and>
   step s
     (GetMessages c
        \<lparr>days = Some (Text ''0 days') OR 1=1 ORDER BY timestamp DESC --''),
         startDate = None, endDate = None\<rparr> now (Inr other)) =
   Inr (s, [(c, MessageHistory
          (map (\<lambda>r. \<lparr>msg_id = messages_id r, msg_content = Some (messages_content r),
                      msg_timestamp = messages_timestamp r,
                      msg_user = \<lparr>studentId = messages_student_id r,
                                  name = messages_user_name r\<rparr>\<rparr>)
             (rev (sort_key messages_timestamp (rev (messages s))))))])"
proof -
  have a: "run init
     [Connect ''a'',
      SendMessage ''a'' \<lparr>content = Some ''hi'', user = Some \<lparr>studentId = ''2021001'', name = None\<rparr>\<rparr>
        1704067201000 True,
      SendMessage ''a'' \<lparr>content = Some ''ho'', user = Some \<lparr>studentId = ''2021001'', name = None\<rparr>\<rparr>
        1704067202000 True] =
   Inr \<lparr>sockets = [''a''], connectedUsers = Map.empty,
        messages =
          [\<lparr>messages_id = 1, messages_student_id = ''2021001'', messages_user_name = None,
            messages_content = ''hi'', messages_timestamp = ''2024-01-01T00:00:01.000Z''\<rparr>,
           \<lparr>messages_id = 2, messages_student_id = ''2021001'', messages_user_name = None,
            messages_content = ''ho'', messages_timestamp = ''2024-01-01T00:00:02.000Z''\<rparr>],
        messages_seq = 2, online_users = []\<rparr>"
    by (simp add: init_def sendMessage_def insert_message_def io_emit_def toISOString_example
        toISOString_example2 Let_def)
  have b: "\<And>s c now other. step s
     (GetMessages c
        \<lparr>days = Some (Text ''0 days') OR 1=1 ORDER BY timestamp DESC --''),
         startDate = None, endDate = None\<rparr> now (Inr other)) =
   Inr (s, [(c, MessageHistory
          (map (\<lambda>r. \<lparr>msg_id = messages_id r, msg_content = Some (messages_content r),
                      msg_timestamp = messages_timestamp r,
                      msg_user = \<lparr>studentId = messages_student_id r,
                                  name = messages_user_name r\<rparr>\<rparr>)
             (rev (sort_key messages_timestamp (rev (messages s))))))])"
    by (simp only: step.simps getMessages_injected) (simp add: format_message_def)
  show ?thesis
    by (simp only: a b getMessages_query_injected)
       (simp add: ascending_by_timestamp_then_id_def)
qed

section \<open>History queries with a typed filter\<close>

text \<open>
  What the engine reads in the query text when the interpolated text is a number: the
  statement the handlers mean, ending in \<open>ORDER BY timestamp ASC LIMIT 1000\<close>.
\<close>

lemma after_prefix_append: "after_prefix p (p @ r) = Some r"
  by (induction p) simp_all

lemma digit_is_digit: "is_digit (digit n)"
proof -
  have "n mod 10 < length ''0123456789''" by simp
  then have "''0123456789'' ! (n mod 10) \<in> set ''0123456789''" by (rule nth_mem)
  then show ?thesis by (simp only: is_digit_def digit_def)
qed

lemma digit_value_digit: "digit_value (digit n) = n mod 10"
proof -
  have "n mod 10 = 0 \<or> n mod 10 = 1 \<or> n mod 10 = 2 \<or> n mod 10 = 3 \<or> n mod 10 = 4 \<or>
      n mod 10 = 5 \<or> n mod 10 = 6 \<or> n mod 10 = 7 \<or> n mod 10 = 8 \<or> n mod 10 = 9"
    by presburger
  then show ?thesis
    by (elim disjE) (simp_all add: digit_value_def digit_def)
qed

lemma show_nat_digits: "show_nat n \<noteq> [] \<and> list_all is_digit (show_nat n)"
proof (induction n rule: show_nat.induct)
  case (1 n)
  show ?case
  proof (cases "n < 10")
    case True
    then show ?thesis by (simp add: show_nat.simps [of n] digit_is_digit)
  next
    case False
    then show ?thesis using 1 by (simp add: show_nat.simps [of n] digit_is_digit)
  qed
qed

lemma foldl_show_nat: "foldl (\<lambda>a c. 10 * a + digit_value c) 0 (show_nat n) = n"
proof (induction n rule: show_nat.induct)
  case (1 n)
  show ?case
  proof (cases "n < 10")
    case True
    then show ?thesis by (simp add: show_nat.simps [of n] digit_value_digit)
  next
    case False
    then have "foldl (\<lambda>a c. 10 * a + digit_value c) 0 (show_nat (n div 10)) = n div 10"
      using 1 by simp
    then show ?thesis using False
      by (simp add: show_nat.simps [of n] digit_value_digit)
  qed
qed

lemma parse_nat_show_nat: "parse_nat (show_nat n) = Some n"
  using show_nat_digits [of n] by (simp add: parse_nat_def foldl_show_nat)

lemma count_days_show_nat: "count_days (show_nat n @ '' days'') = Some n"
proof -
  have d: "\<And>x. x \<in> set (show_nat n) \<Longrightarrow> is_digit x"
    using show_nat_digits [of n] by (simp add: list_all_iff)
  have "dropWhile is_digit (show_nat n @ '' days'') = dropWhile is_digit '' days''"
    using d by (rule dropWhile_append2)
  moreover have "takeWhile is_digit (show_nat n @ '' days'') = show_nat n @ takeWhile is_digit '' days''"
    using d by (rule takeWhile_append2)
  ultimately show ?thesis
    by (simp add: count_days_def is_digit_def parse_nat_show_nat)
qed

lemma show_nat_first: "\<exists>c cs. show_nat n = c # cs \<and> is_digit c"
  using show_nat_digits [of n] by (cases "show_nat n") auto

lemma parse_modifier_number:
  "parse_modifier (''-'' @ show_int n @ '' days'') =
     Some (if n < 0 then None else Some (nat n))"
proof (cases "n < 0")
  case True
  then show ?thesis
    by (simp add: parse_modifier_def show_int_def count_days_show_nat)
next
  case False
  obtain c cs where cs: "show_nat (nat n) = c # cs" and c: "is_digit c"
    using show_nat_first by blast
  have "c \<noteq> CHR ''-''" and "c \<noteq> CHR ''N''" using c by (auto simp: is_digit_def)
  then have "after_prefix ''-'' (show_nat (nat n) @ '' days'') = None"
    and "show_nat (nat n) @ '' days'' \<noteq> ''NaN days''"
    by (simp_all add: cs)
  then show ?thesis using False
    using count_days_show_nat [of "nat n"]
    by (simp add: parse_modifier_def show_int_def)
qed

lemma parse_modifier_NaN: "parse_modifier (''-'' @ ''NaN'' @ '' days'') = Some None"
  by (simp add: parse_modifier_def)

lemma uncomment_Cons:
  "rest \<noteq> [] \<Longrightarrow>
   uncomment q (c # rest) =
     (if c = CHR 0x27 then c # uncomment (\<not> q) rest
      else if \<not> q \<and> c = CHR ''-'' \<and> hd rest = CHR ''-'' then []
      else c # uncomment q rest)"
  by (cases rest) simp_all

lemma uncomment_quoted_append:
  "CHR 0x27 \<notin> set xs \<Longrightarrow> ys \<noteq> [] \<Longrightarrow> uncomment True (xs @ ys) = xs @ uncomment True ys"
  by (induction xs) (auto simp: uncomment_Cons)

lemma uncomment_since:
  assumes "CHR 0x27 \<notin> set d"
  shows "uncomment False (fst (sql_text (TimestampSince d))) = fst (sql_text (TimestampSince d))"
proof -
  have "uncomment True (d @ '' days') ORDER BY timestamp ASC LIMIT 1000'') =
      d @ uncomment True '' days') ORDER BY timestamp ASC LIMIT 1000''"
    using assms by (rule uncomment_quoted_append) simp
  then show ?thesis
    by (simp add: uncomment_Cons)
qed

lemma parse_since_text:
  assumes "CHR 0x27 \<notin> set d" and "CHR 0x0A \<notin> set d"
      and "parse_modifier (''-'' @ d @ '' days'') = Some m"
  shows "parse_statement (fst (sql_text (TimestampSince d))) =
           Some \<lparr>st_where = Since m, st_order = Ascending, st_limit = Some 1000\<rparr>"
proof -
  have q: "\<And>x. x \<in> set d \<Longrightarrow> x \<noteq> CHR 0x27" using assms(1) by auto
  have dw: "dropWhile (\<lambda>c. c \<noteq> CHR 0x27) (d @ '' days') ORDER BY timestamp ASC LIMIT 1000'') =
      dropWhile (\<lambda>c. c \<noteq> CHR 0x27) '' days') ORDER BY timestamp ASC LIMIT 1000''"
    using q by (rule dropWhile_append2)
  have tw: "takeWhile (\<lambda>c. c \<noteq> CHR 0x27) (d @ '' days') ORDER BY timestamp ASC LIMIT 1000'') =
      d @ takeWhile (\<lambda>c. c \<noteq> CHR 0x27) '' days') ORDER BY timestamp ASC LIMIT 1000''"
    using q by (rule takeWhile_append2)
  have m: "parse_modifier (CHR ''-'' # d @ '' days'') = Some m" using assms(3) by simp
  have atom: "parse_atom 0
      (''timestamp >= datetime('now', '-'' @ d @ '' days') ORDER BY timestamp ASC LIMIT 1000'') =
      Some (Since m, 0, '' ORDER BY timestamp ASC LIMIT 1000'')"
    by (simp add: parse_atom_def quote_def dw tw m)
  have unc: "uncomment False (fst (sql_text (TimestampSince d))) = fst (sql_text (TimestampSince d))"
    using assms(1) by (rule uncomment_since)
  have nl: "CHR 0x0A \<notin> set (fst (sql_text (TimestampSince d)))" using assms(2) by simp
  have "parse_where ('' WHERE timestamp >= datetime('now', '-'' @ d @
      '' days') ORDER BY timestamp ASC LIMIT 1000'') =
      Some (Since m, '' ORDER BY timestamp ASC LIMIT 1000'')"
    using atom by (simp add: parse_where_def)
  then show ?thesis
    using nl unfolding parse_statement_def unc
    by (simp add: parse_order_def parse_limit_def parse_nat_def blank_def is_digit_def
        digit_value_def)
qed

lemma parse_between:
  "parse_statement
     ''SELECT * FROM messages WHERE date(timestamp) BETWEEN ? AND ? ORDER BY timestamp ASC LIMIT 1000'' =
     Some \<lparr>st_where = Between 0 1, st_order = Ascending, st_limit = Some 1000\<rparr>"
  by (simp add: parse_defs)

lemma parse_date_ge:
  "parse_statement
     ''SELECT * FROM messages WHERE date(timestamp) >= ? ORDER BY timestamp ASC LIMIT 1000'' =
     Some \<lparr>st_where = DateGe 0, st_order = Ascending, st_limit = Some 1000\<rparr>"
  by (simp add: parse_defs)

lemma show_int_chars: "c \<in> set (show_int n) \<Longrightarrow> c = CHR ''-'' \<or> is_digit c"
  using show_nat_digits [of "nat n"] show_nat_digits [of "nat (- n)"]
  by (auto simp: show_int_def list_all_iff split: if_splits)

lemma parse_number_text:
  "parse_statement (fst (sql_text (TimestampSince (number_text v)))) =
     Some \<lparr>st_where = Since (case v of None \<Rightarrow> None | Some n \<Rightarrow> if n < 0 then None else Some (nat n)),
           st_order = Ascending, st_limit = Some 1000\<rparr>"
proof (cases v)
  case None
  have "parse_statement (fst (sql_text (TimestampSince ''NaN''))) =
      Some \<lparr>st_where = Since None, st_order = Ascending, st_limit = Some 1000\<rparr>"
    by (rule parse_since_text) (simp_all add: parse_modifier_def)
  then show ?thesis using None by (simp add: number_text_def)
next
  case (Some n)
  have a: "CHR 0x27 \<notin> set (show_int n)" and b: "CHR 0x0A \<notin> set (show_int n)"
    using show_int_chars [of _ n] by (auto simp: is_digit_def)
  have "parse_statement (fst (sql_text (TimestampSince (show_int n)))) =
      Some \<lparr>st_where = Since (if n < 0 then None else Some (nat n)),
            st_order = Ascending, st_limit = Some 1000\<rparr>"
    using a b parse_modifier_number by (rule parse_since_text)
  then show ?thesis using Some by (simp add: number_text_def)
qed

lemma parse_date_where:
  "\<exists>w. parse_statement (fst (sql_text (date_where sd ed))) =
         Some \<lparr>st_where = w, st_order = Ascending, st_limit = Some 1000\<rparr>"
  by (cases "(sd, ed)" rule: date_where.cases)
     (auto simp: parse_plain parse_between parse_date_ge)

lemma parse_api_messages_query:
  "\<exists>w. parse_statement (fst (api_messages_query parseInt q)) =
         Some \<lparr>st_where = w, st_order = Ascending, st_limit = Some 1000\<rparr>"
  using parse_date_where [of "q_startDate q" "q_endDate q"]
  by (auto simp: api_messages_query_def api_messages_where_def parse_number_text
           simp del: sql_text.simps split: option.splits)

lemma parse_getMessages_query:
  assumes "\<forall>t. days dateRange \<noteq> Some (Text t)"
  shows "\<exists>w. parse_statement (fst (getMessages_query dateRange)) =
           Some \<lparr>st_where = w, st_order = Ascending, st_limit = Some 1000\<rparr>"
proof (cases "days dateRange")
  case None
  then show ?thesis
    using parse_date_where [of "startDate dateRange" "endDate dateRange"]
    by (simp add: getMessages_query_def getMessages_where_def del: sql_text.simps)
next
  case (Some v)
  then obtain n where v: "v = Number n" using assms by (cases v) auto
  show ?thesis
  proof (cases "n = 0")
    case True
    then show ?thesis
      using Some v parse_date_where [of "startDate dateRange" "endDate dateRange"]
      by (simp add: getMessages_query_def getMessages_where_def del: sql_text.simps)
  next
    case False
    then have "getMessages_query dateRange = sql_text (TimestampSince (number_text (Some n)))"
      using Some v by (simp add: getMessages_query_def getMessages_where_def number_text_def)
    then show ?thesis using parse_number_text [of "Some n"] by simp
  qed
qed

text \<open>
  The rows of \<open>messages\<close> stand in ascending order of their ids (\<open>ids_ascending\<close>),
  and a sort on the timestamp that keeps the order of the scan among equal timestamps gives
  the order the specification asks for.
\<close>

lemma step_ids_ascending:
  assumes "step s e = Inr (s1, out)" and "ids_ascending s"
  shows "ids_ascending s1"
proof (cases e)
  case (Connect c)
  then show ?thesis using assms by (auto simp: ids_ascending_def split: if_splits)
next
  case (Join c u t a)
  then show ?thesis using assms by (auto simp: ids_ascending_def join_def Let_def)
next
  case (SendMessage c md now ok)
  then have sm: "sendMessage s c md now ok = Inr (s1, out)" using assms(1) by simp
  have le: "messages_id x \<le> messages_seq s + 1" if "x \<in> set (messages s)" for x
    using that assms(2) by (force simp: ids_ascending_def)
  show ?thesis using sm assms(2) le
    by (auto simp: sendMessage_def insert_message_def Let_def ids_ascending_def sorted_append
             split: option.splits if_splits sum.splits)
next
  case (GetMessages c dr now a)
  then show ?thesis using assms by auto
next
  case (Disconnect c a)
  then show ?thesis using assms
    by (auto simp: ids_ascending_def disconnect_def Let_def split: option.splits)
qed

lemma run_ids_ascending:
  "run s es = Inr s' \<Longrightarrow> ids_ascending s \<Longrightarrow> ids_ascending s'"
proof (induction es arbitrary: s)
  case Nil
  then show ?case by simp
next
  case (Cons e es)
  from Cons.prems(1) obtain s1 out where "step s e = Inr (s1, out)" and "run s1 es = Inr s'"
    using run_Cons_Inr by blast
  then show ?case using Cons.IH Cons.prems(2) step_ids_ascending by blast
qed

lemma insort_by_timestamp_then_id:
  assumes "sorted_wrt (\<lambda>a b. messages_timestamp a < messages_timestamp b \<or>
             (messages_timestamp a = messages_timestamp b \<and> messages_id a \<le> messages_id b)) ys"
      and "\<forall>y \<in> set ys. messages_id x \<le> messages_id y"
  shows "sorted_wrt (\<lambda>a b. messages_timestamp a < messages_timestamp b \<or>
             (messages_timestamp a = messages_timestamp b \<and> messages_id a \<le> messages_id b))
           (insort_key messages_timestamp x ys)"
  using assms
proof (induction ys)
  case Nil
  then show ?case by simp
next
  case (Cons y ys)
  show ?case
  proof (cases "messages_timestamp x \<le> messages_timestamp y")
    case True
    have "\<forall>z \<in> set (y # ys). messages_timestamp x \<le> messages_timestamp z"
      using True Cons.prems(1) by (auto intro: order.trans less_imp_le)
    then have "\<forall>z \<in> set (y # ys). messages_timestamp x < messages_timestamp z \<or>
        (messages_timestamp x = messages_timestamp z \<and> messages_id x \<le> messages_id z)"
      using Cons.prems(2) by (auto simp: order.order_iff_strict)
    then show ?thesis using True Cons.prems(1) by simp
  next
    case False
    then have lt: "messages_timestamp y < messages_timestamp x" by simp
    have "sorted_wrt (\<lambda>a b. messages_timestamp a < messages_timestamp b \<or>
             (messages_timestamp a = messages_timestamp b \<and> messages_id a \<le> messages_id b))
           (insort_key messages_timestamp x ys)"
      using Cons.IH Cons.prems by simp
    then show ?thesis using False lt Cons.prems(1) by (auto simp: set_insort_key)
  qed
qed

lemma sort_by_timestamp_then_id:
  "sorted (map messages_id rows) \<Longrightarrow>
   sorted_wrt (\<lambda>a b. messages_timestamp a < messages_timestamp b \<or>
             (messages_timestamp a = messages_timestamp b \<and> messages_id a \<le> messages_id b))
     (sort_key messages_timestamp rows)"
proof (induction rows)
  case Nil
  then show ?case by simp
next
  case (Cons x rows)
  then show ?case by (simp add: insort_by_timestamp_then_id)
qed

lemma ascending_statement:
  assumes "sorted (map messages_id rows)"
  shows "length (run_statement now ps rows \<lparr>st_where = w, st_order = Ascending, st_limit = Some 1000\<rparr>)
           \<le> 1000 \<and>
         ascending_by_timestamp_then_id
           (map format_message
             (run_statement now ps rows \<lparr>st_where = w, st_order = Ascending, st_limit = Some 1000\<rparr>))"
proof -
  let ?sel = "filter (holds now ps w) rows"
  have "sorted (map messages_id ?sel)" using assms by (rule sorted_filter)
  then have "sorted_wrt (\<lambda>a b. messages_timestamp a < messages_timestamp b \<or>
             (messages_timestamp a = messages_timestamp b \<and> messages_id a \<le> messages_id b))
     (take 1000 (sort_key messages_timestamp ?sel))"
    by (intro sorted_wrt_take sort_by_timestamp_then_id)
  then show ?thesis
    by (simp add: run_statement_def ascending_by_timestamp_then_id_def sorted_wrt_map
        format_message_def)
qed

text \<open>
  Where C2 does hold: over HTTP with any query string, and over the socket when \<open>days\<close>
  is a number or absent, in every state the server reaches from a new database, and the
  engine working, the history has at most 1000 messages, ascending by timestamp and then
  by id.
\<close>

lemma history_typed_capped_ascending:
  assumes "run init es = Inr s" and "\<forall>t. days dateRange \<noteq> Some (Text t)"
  shows "(\<exists>hist. step s (GetMessages c dateRange now (Inr other)) =
                   Inr (s, [(c, MessageHistory hist)]) \<and>
            length hist \<le> 1000 \<and> ascending_by_timestamp_then_id hist) \<and>
         (\<exists>hist. api_messages parseInt s q now' (Inr other') = Json200 hist \<and>
            length hist \<le> 1000 \<and> ascending_by_timestamp_then_id hist)"
proof -
  have "ids_ascending init" by (simp add: ids_ascending_def init_def)
  then have "ids_ascending s" using assms(1) run_ids_ascending by blast
  then have ids: "sorted (map messages_id (messages s))" by (simp add: ids_ascending_def)
  obtain w where w: "parse_statement (fst (getMessages_query dateRange)) =
      Some \<lparr>st_where = w, st_order = Ascending, st_limit = Some 1000\<rparr>"
    using parse_getMessages_query [OF assms(2)] by blast
  obtain w' where w': "parse_statement (fst (api_messages_query parseInt q)) =
      Some \<lparr>st_where = w', st_order = Ascending, st_limit = Some 1000\<rparr>"
    using parse_api_messages_query by blast
  have "step s (GetMessages c dateRange now (Inr other)) =
      Inr (s, [(c, MessageHistory (map format_message
        (run_statement now (snd (getMessages_query dateRange)) (messages s)
           \<lparr>st_where = w, st_order = Ascending, st_limit = Some 1000\<rparr>)))])"
    by (simp add: getMessages_def db_all_def w socket_emit_def)
  moreover have "api_messages parseInt s q now' (Inr other') =
      Json200 (map format_message
        (run_statement now' (snd (api_messages_query parseInt q)) (messages s)
           \<lparr>st_where = w', st_order = Ascending, st_limit = Some 1000\<rparr>))"
    by (simp add: api_messages_def db_all_def w')
  ultimately show ?thesis
    using ascending_statement [OF ids, of now "snd (getMessages_query dateRange)" w]
      ascending_statement [OF ids, of now' "snd (api_messages_query parseInt q)" w']
    by auto
qed

text \<open>
  What a positive number of days selects: the rows whose timestamp text is not below the
  text of \<open>datetime\<close> at \<open>now\<close> minus that many days.
\<close>

lemma getMessages_number_days:
  assumes "0 < n"
  shows "db_all now rows
           (getMessages_query \<lparr>days = Some (Number n), startDate = sd, endDate = ed\<rparr>) (Inr other) =
         Inr (take 1000 (sort_key messages_timestamp
           (filter (\<lambda>r. case sqlite_datetime (now - n * 86400000) of
                          None \<Rightarrow> False
                        | Some cutoff \<Rightarrow> cutoff \<le> messages_timestamp r) rows)))"
proof -
  have "getMessages_query \<lparr>days = Some (Number n), startDate = sd, endDate = ed\<rparr> =
      sql_text (TimestampSince (number_text (Some n)))"
    using assms by (simp add: getMessages_query_def getMessages_where_def number_text_def)
  moreover have "holds now ps (Since (Some (nat n))) =
      (\<lambda>r. case sqlite_datetime (now - n * 86400000) of
              None \<Rightarrow> False
            | Some cutoff \<Rightarrow> cutoff \<le> messages_timestamp r)" for ps
    using assms by (intro ext) (simp add: datetime_now_minus_days_def)
  ultimately show ?thesis
    using assms parse_number_text [of "Some n"]
    by (simp add: db_all_def run_statement_def del: sql_text.simps)
qed

section \<open>The text of the history query\<close>

text \<open>
  C9. The \<open>days\<close> value of the input is written into the query text: for
  \<open>getMessages {days: 7}\<close> the text contains \<open>-7 days\<close>, for \<open>{days: 30}\<close> it
  contains \<open>-30 days\<close>, and the parameter array is empty in both.
\<close>

theorem getMessages_query_interpolates_days:
  "getMessages_query \<lparr>days = Some (Number 7), startDate = None, endDate = None\<rparr> =
     (''SELECT * FROM messages WHERE timestamp >= datetime('now', '-7 days') ORDER BY timestamp ASC LIMIT 1000'', []) \<and>
   getMessages_query \<lparr>days = Some (Number 30), startDate = None, endDate = None\<rparr> =
     (''SELECT * FROM messages WHERE timestamp >= datetime('now', '-30 days') ORDER BY timestamp ASC LIMIT 1000'', [])"
  by (simp add: getMessages_query_def getMessages_where_def show_int_7 show_int_30)

text \<open>The HTTP handler does the same with the result of \<open>parseInt\<close>.\<close>

lemma api_messages_query_interpolates_days:
  "d \<noteq> [] \<Longrightarrow> d \<noteq> ''0'' \<Longrightarrow>
   api_messages_query parseInt \<lparr>q_days = Some d, q_startDate = sd, q_endDate = ed\<rparr> =
     (''SELECT * FROM messages WHERE timestamp >= datetime('now', '-'' @ number_text (parseInt d) @
      '' days') ORDER BY timestamp ASC LIMIT 1000'', [])"
  by (simp add: api_messages_query_def api_messages_where_def)

text \<open>
  The branches on \<open>startDate\<close> and \<open>endDate\<close> do what the claim asks: the text is one
  of three fixed texts and the dates are bound as parameters.
\<close>

lemma date_branches_bind_parameters:
  "fst (sql_text (date_where sd ed)) \<in>
     {''SELECT * FROM messages ORDER BY timestamp ASC LIMIT 1000'',
      ''SELECT * FROM messages WHERE date(timestamp) BETWEEN ? AND ? ORDER BY timestamp ASC LIMIT 1000'',
      ''SELECT * FROM messages WHERE date(timestamp) >= ? ORDER BY timestamp ASC LIMIT 1000''}"
  by (cases "(sd, ed)" rule: date_where.cases) auto

section \<open>Presence\<close>

lemma filter_insert_or_replace:
  "filter (\<lambda>x. online_student_id x = online_student_id r) (insert_or_replace_online r rows) = [r]"
  by (simp add: insert_or_replace_online_def)

lemma mset_filter_singleton:
  assumes "mset ordered = mset rows" and "filter P rows = [r]"
  shows "filter P ordered = [r]"
proof -
  have "mset (filter P ordered) = mset (filter P rows)"
    using assms(1) by simp
  then have "mset (filter P ordered) = {#r#}" using assms(2) by simp
  then show ?thesis by (simp only: mset_single_iff)
qed

text \<open>
  C3. After a join of a user on one connection and a later join of the same user on
  another, whatever happened before and in between, \<open>online_users\<close> has exactly one row
  for the user, and it is the row of the later join: its connection, its name, its time.
  The same holds of every listing the engine may give for \<open>userListUpdate\<close>.
\<close>

theorem rejoin_replaces:
  assumes "run s (es @ [Join c1 u1 t1 a1] @ es' @ [Join c2 u2 t2 a2]) = Inr s'"
      and "studentId u1 = studentId u2"
      and "select_online_users s' ordered"
  shows "filter (\<lambda>r. online_student_id r = studentId u2) (online_users s') =
           [\<lparr>online_student_id = studentId u2, online_user_name = name u2,
             online_socket_id = c2, online_joined_at = t2\<rparr>] \<and>
         filter (\<lambda>r. online_student_id r = studentId u2) ordered =
           [\<lparr>online_student_id = studentId u2, online_user_name = name u2,
             online_socket_id = c2, online_joined_at = t2\<rparr>]"
proof -
  let ?r = "\<lparr>online_student_id = studentId u2, online_user_name = name u2,
             online_socket_id = c2, online_joined_at = t2\<rparr>"
  have "run s ((es @ [Join c1 u1 t1 a1] @ es') @ [Join c2 u2 t2 a2]) = Inr s'"
    using assms(1) by simp
  then obtain s1 where "run s1 [Join c2 u2 t2 a2] = Inr s'"
    unfolding run_append by (auto split: sum.splits)
  then obtain out where "join s1 c2 u2 t2 a2 = (s', out)" by (auto split: prod.splits)
  then have "online_users s' = insert_or_replace_online ?r (online_users s1)"
    by (rule join_state)
  then have "filter (\<lambda>x. online_student_id x = online_student_id ?r) (online_users s') = [?r]"
    by (simp only: filter_insert_or_replace)
  then have tab: "filter (\<lambda>r. online_student_id r = studentId u2) (online_users s') = [?r]" by simp
  moreover have "filter (\<lambda>r. online_student_id r = studentId u2) ordered = [?r]"
    using assms(3) tab by (auto simp: select_online_users_def intro: mset_filter_singleton)
  ultimately show ?thesis by simp
qed

theorem rejoin_replaces_witness:
  "run init ([Connect ''a'', Connect ''b''] @
      [Join ''a'' \<lparr>studentId = ''2021001'', name = Some ''Zhang''\<rparr> ''2024-01-01 00:00:01''
         (Inl EngineFailure)] @ [] @
      [Join ''b'' \<lparr>studentId = ''2021001'', name = Some ''San''\<rparr> ''2024-01-01 00:00:02''
         (Inl EngineFailure)]) =
   Inr \<lparr>sockets = [''a'', ''b''],
        connectedUsers =
          [''a'' \<mapsto> \<lparr>cu_studentId = ''2021001'', cu_name = Some ''Zhang'', socketId = ''a''\<rparr>,
           ''b'' \<mapsto> \<lparr>cu_studentId = ''2021001'', cu_name = Some ''San'', socketId = ''b''\<rparr>],
        messages = [], messages_seq = 0,
        online_users =
          [\<lparr>online_student_id = ''2021001'', online_user_name = Some ''San'',
            online_socket_id = ''b'', online_joined_at = ''2024-01-01 00:00:02''\<rparr>]\<rparr> \<and>
   studentId \<lparr>studentId = ''2021001'', name = Some ''Zhang''\<rparr> =
     studentId \<lparr>studentId = ''2021001'', name = Some ''San''\<rparr> \<and>
   select_online_users
     \<lparr>sockets = [''a'', ''b''],
        connectedUsers =
          [''a'' \<mapsto> \<lparr>cu_studentId = ''2021001'', cu_name = Some ''Zhang'', socketId = ''a''\<rparr>,
           ''b'' \<mapsto> \<lparr>cu_studentId = ''2021001'', cu_name = Some ''San'', socketId = ''b''\<rparr>],
        messages = [], messages_seq = 0,
        online_users =
          [\<lparr>online_student_id = ''2021001'', online_user_name = Some ''San'',
            online_socket_id = ''b'', online_joined_at = ''2024-01-01 00:00:02''\<rparr>]\<rparr>
     [\<lparr>online_student_id = ''2021001'', online_user_name = Some ''San'',
       online_socket_id = ''b'', online_joined_at = ''2024-01-01 00:00:02''\<rparr>] \<and>
   filter (\<lambda>r. online_student_id r = ''2021001'')
     (online_users
       \<lparr>sockets = [''a'', ''b''],
        connectedUsers =
          [''a'' \<mapsto> \<lparr>cu_studentId = ''2021001'', cu_name = Some ''Zhang'', socketId = ''a''\<rparr>,
           ''b'' \<mapsto> \<lparr>cu_studentId = ''2021001'', cu_name = Some ''San'', socketId = ''b''\<rparr>],
        messages = [], messages_seq = 0,
        online_users =
          [\<lparr>online_student_id = ''2021001'', online_user_name = Some ''San'',
            online_socket_id = ''b'', online_joined_at = ''2024-01-01 00:00:02''\<rparr>]\<rparr>) =
     [\<lparr>online_student_id = ''2021001'', online_user_name = Some ''San'',
       online_socket_id = ''b'', online_joined_at = ''2024-01-01 00:00:02''\<rparr>]"
proof -
  let ?row = "\<lparr>online_student_id = ''2021001'', online_user_name = Some ''San'',
            online_socket_id = ''b'', online_joined_at = ''2024-01-01 00:00:02''\<rparr>"
  let ?s' = "\<lparr>sockets = [''a'', ''b''],
        connectedUsers =
          [''a'' \<mapsto> \<lparr>cu_studentId = ''2021001'', cu_name = Some ''Zhang'', socketId = ''a''\<rparr>,
           ''b'' \<mapsto> \<lparr>cu_studentId = ''2021001'', cu_name = Some ''San'', socketId = ''b''\<rparr>],
        messages = [], messages_seq = 0, online_users = [?row]\<rparr>"
  let ?u1 = "\<lparr>studentId = ''2021001'', name = Some ''Zhang''\<rparr>"
  let ?u2 = "\<lparr>studentId = ''2021001'', name = Some ''San''\<rparr>"
  have h1: "run init ([Connect ''a'', Connect ''b''] @
      [Join ''a'' ?u1 ''2024-01-01 00:00:01'' (Inl EngineFailure)] @ [] @
      [Join ''b'' ?u2 ''2024-01-01 00:00:02'' (Inl EngineFailure)]) = Inr ?s'"
    by (simp add: init_def join_def insert_or_replace_online_def Let_def)
  have h2: "studentId ?u1 = studentId ?u2" by simp
  have h3: "select_online_users ?s' [?row]" by (simp add: select_online_users_def)
  show ?thesis using h1 h2 h3 rejoin_replaces [OF h1 h2 h3] by simp
qed

subsection \<open>Disconnecting before any join\<close>

lemma step_connectedUsers_other:
  assumes "step s e = Inr (s1, out)" and "\<not> (is_join e \<and> connection_of e = c)"
      and "connectedUsers s c = None"
  shows "connectedUsers s1 c = None"
  using assms
  by (cases e) (auto simp: join_state(2) disconnect_state(2) dest: sendMessage_presence
                 split: if_splits)

lemma never_joined:
  assumes "run s es = Inr s'" and "c \<notin> set (map connection_of (filter is_join es))"
      and "connectedUsers s c = None"
  shows "connectedUsers s' c = None"
  using assms
proof (induction es arbitrary: s)
  case Nil
  then show ?case by simp
next
  case (Cons e es)
  from Cons.prems(1) obtain s1 out where st: "step s e = Inr (s1, out)" and r: "run s1 es = Inr s'"
    using run_Cons_Inr by blast
  have "\<not> (is_join e \<and> connection_of e = c)" using Cons.prems(2) by auto
  then have "connectedUsers s1 c = None"
    using st Cons.prems(3) step_connectedUsers_other by blast
  moreover have "c \<notin> set (map connection_of (filter is_join es))"
    using Cons.prems(2) by (auto split: if_splits)
  ultimately show ?case using Cons.IH r by blast
qed

text \<open>
  C8. A connection that disconnects without any join of its own in the run since the server
  started (\<open>connectedUsers\<close> is empty then, whatever the database holds): the handler
  emits nothing, so no \<open>userLeft\<close> and no \<open>userListUpdate\<close>, and \<open>online_users\<close>
  and \<open>connectedUsers\<close> are as before; only the socket leaves the namespace.
\<close>

theorem disconnect_without_join:
  assumes "connectedUsers s0 = Map.empty" and "run s0 es = Inr s"
      and "c \<notin> set (map connection_of (filter is_join es))"
  shows "step s (Disconnect c answer) = Inr (s\<lparr>sockets := removeAll c (sockets s)\<rparr>, []) \<and>
         online_users (s\<lparr>sockets := removeAll c (sockets s)\<rparr>) = online_users s \<and>
         connectedUsers (s\<lparr>sockets := removeAll c (sockets s)\<rparr>) = connectedUsers s"
proof -
  have "connectedUsers s0 c = None" using assms(1) by simp
  then have "connectedUsers s c = None" using never_joined assms(2,3) by blast
  then show ?thesis by (simp add: disconnect_def)
qed

theorem disconnect_without_join_witness:
  "connectedUsers init = Map.empty \<and>
   run init [Connect ''a'', Connect ''b'',
      Join ''a'' \<lparr>studentId = ''2021001'', name = None\<rparr> ''2024-01-01 00:00:01'' (Inl EngineFailure)] =
   Inr \<lparr>sockets = [''a'', ''b''],
        connectedUsers = [''a'' \<mapsto> \<lparr>cu_studentId = ''2021001'', cu_name = None, socketId = ''a''\<rparr>],
        messages = [], messages_seq = 0,
        online_users =
          [\<lparr>online_student_id = ''2021001'', online_user_name = None,
            online_socket_id = ''a'', online_joined_at = ''2024-01-01 00:00:01''\<rparr>]\<rparr> \<and>
   ''b'' \<notin> set (map connection_of (filter is_join [Connect ''a'', Connect ''b'',
      Join ''a'' \<lparr>studentId = ''2021001'', name = None\<rparr> ''2024-01-01 00:00:01'' (Inl EngineFailure)])) \<and>
   step \<lparr>sockets = [''a'', ''b''],
        connectedUsers = [''a'' \<mapsto> \<lparr>cu_studentId = ''2021001'', cu_name = None, socketId = ''a''\<rparr>],
        messages = [], messages_seq = 0,
        online_users =
          [\<lparr>online_student_id = ''2021001'', online_user_name = None,
            online_socket_id = ''a'', online_joined_at = ''2024-01-01 00:00:01''\<rparr>]\<rparr>
     (Disconnect ''b'' (Inl EngineFailure)) =
   Inr (\<lparr>sockets = [''a''],
        connectedUsers = [''a'' \<mapsto> \<lparr>cu_studentId = ''2021001'', cu_name = None, socketId = ''a''\<rparr>],
        messages = [], messages_seq = 0,
        online_users =
          [\<lparr>online_student_id = ''2021001'', online_user_name = None,
            online_socket_id = ''a'', online_joined_at = ''2024-01-01 00:00:01''\<rparr>]\<rparr>, [])"
proof -
  let ?es = "[Connect ''a'', Connect ''b'',
      Join ''a'' \<lparr>studentId = ''2021001'', name = None\<rparr> ''2024-01-01 00:00:01'' (Inl EngineFailure)]"
  let ?s = "\<lparr>sockets = [''a'', ''b''],
        connectedUsers = [''a'' \<mapsto> \<lparr>cu_studentId = ''2021001'', cu_name = None, socketId = ''a''\<rparr>],
        messages = [], messages_seq = 0,
        online_users =
          [\<lparr>online_student_id = ''2021001'', online_user_name = None,
            online_socket_id = ''a'', online_joined_at = ''2024-01-01 00:00:01''\<rparr>]\<rparr>"
  have h0: "connectedUsers init = Map.empty" by (simp add: init_def)
  have h1: "run init ?es = Inr ?s"
    by (simp add: init_def join_def insert_or_replace_online_def Let_def)
  have h2: "''b'' \<notin> set (map connection_of (filter is_join ?es))" by simp
  show ?thesis
    using h0 h1 h2 disconnect_without_join [OF h0 h1 h2, of "Inl EngineFailure"] by simp
qed

section \<open>The day filter and the unfiltered query\<close>

lemma parse_days_7:
  "parse_statement
     ''SELECT * FROM messages WHERE timestamp >= datetime('now', '-7 days') ORDER BY timestamp ASC LIMIT 1000'' =
     Some \<lparr>st_where = Since (Some 7), st_order = Ascending, st_limit = Some 1000\<rparr>"
  by (simp add: parse_defs)

lemma getMessages_query_7:
  "getMessages_query \<lparr>days = Some (Number 7), startDate = None, endDate = None\<rparr> =
     (''SELECT * FROM messages WHERE timestamp >= datetime('now', '-7 days') ORDER BY timestamp ASC LIMIT 1000'', [])"
  by (simp add: getMessages_query_def getMessages_where_def show_int_7)

text \<open>
  C6. A message sent at 2024-01-01T00:00:01Z and a query with \<open>days = 7\<close> at
  2024-01-08T12:00:00Z: the message is twelve hours older than the query time minus seven
  days, and the engine selects it and the handler sends it. The stored timestamp has
  \<open>T\<close> after the date where the engine's \<open>datetime\<close> has a space, so the text
  comparison is decided by the date alone.
\<close>

theorem getMessages_days_selects_older_message:
  "run init
     [Connect ''a'',
      SendMessage ''a'' \<lparr>content = Some ''hi'', user = Some \<lparr>studentId = ''2021001'', name = None\<rparr>\<rparr>
        1704067201000 True] =
   Inr \<lparr>sockets = [''a''], connectedUsers = Map.empty,
        messages =
          [\<lparr>messages_id = 1, messages_student_id = ''2021001'', messages_user_name = None,
            messages_content = ''hi'', messages_timestamp = ''2024-01-01T00:00:01.000Z''\<rparr>],
        messages_seq = 1, online_users = []\<rparr> \<and>
   (1704067201000 :: int) < 1704715200000 - 7 * 86400000 \<and>
   datetime_now_minus_days 1704715200000 (Some 7) = Some ''2024-01-01 12:00:00'' \<and>
   db_all 1704715200000
     [\<lparr>messages_id = 1, messages_student_id = ''2021001'', messages_user_name = None,
       messages_content = ''hi'', messages_timestamp = ''2024-01-01T00:00:01.000Z''\<rparr>]
     (getMessages_query \<lparr>days = Some (Number 7), startDate = None, endDate = None\<rparr>) (Inr []) =
     Inr [\<lparr>messages_id = 1, messages_student_id = ''2021001'', messages_user_name = None,
       messages_content = ''hi'', messages_timestamp = ''2024-01-01T00:00:01.000Z''\<rparr>] \<and>
   map_sum (\<lambda>err. err) snd
     (step
       \<lparr>sockets = [''a''], connectedUsers = Map.empty,
        messages =
          [\<lparr>messages_id = 1, messages_student_id = ''2021001'', messages_user_name = None,
            messages_content = ''hi'', messages_timestamp = ''2024-01-01T00:00:01.000Z''\<rparr>],
        messages_seq = 1, online_users = []\<rparr>
       (GetMessages ''a'' \<lparr>days = Some (Number 7), startDate = None, endDate = None\<rparr>
          1704715200000 (Inr []))) =
   Inr [(''a'', MessageHistory
          [\<lparr>msg_id = 1, msg_content = Some ''hi'', msg_timestamp = ''2024-01-01T00:00:01.000Z'',
            msg_user = \<lparr>studentId = ''2021001'', name = None\<rparr>\<rparr>])]"
  by (simp add: init_def sendMessage_def insert_message_def io_emit_def toISOString_example Let_def
      getMessages_query_7 db_all_def parse_days_7 run_statement_def cutoff_example
      getMessages_def socket_emit_def format_message_def)

text \<open>
  The boundary case of the claim does hold: a message stamped exactly seven days before the
  query time is selected.
\<close>

lemma toISOString_boundary: "toISOString 1704110400000 = ''2024-01-01T12:00:00.000Z''"
  by (simp add: toISOString_def civil_19723 text_defs)

lemma getMessages_days_boundary:
  "db_all 1704715200000
     [\<lparr>messages_id = i, messages_student_id = u, messages_user_name = n, messages_content = t,
       messages_timestamp = toISOString (1704715200000 - 7 * 86400000)\<rparr>]
     (getMessages_query \<lparr>days = Some (Number 7), startDate = None, endDate = None\<rparr>) (Inr other) =
   Inr [\<lparr>messages_id = i, messages_student_id = u, messages_user_name = n, messages_content = t,
       messages_timestamp = ''2024-01-01T12:00:00.000Z''\<rparr>]"
  by (simp add: getMessages_query_7 db_all_def parse_days_7 run_statement_def cutoff_example
      toISOString_boundary)

lemma mset_take_all: "length xs \<le> n \<Longrightarrow> mset (take n (sort_key f xs)) = mset xs"
  by simp

text \<open>
  C7. When \<open>days\<close> is absent or 0 (for HTTP: absent or the text \<open>0\<close>) and there is no
  \<open>startDate\<close>, the query has no WHERE clause: its text is the fixed text below, and,
  the engine working, the handler sends the first 1000 of all stored messages in ascending
  order of timestamp, each with the id, content, timestamp and author of its row; that is
  every stored message when no more than 1000 are stored.
\<close>

theorem history_unfiltered:
  assumes "days dateRange = None \<or> days dateRange = Some (Number 0)"
      and "startDate dateRange = None"
      and "q_days q = None \<or> q_days q = Some ''0''"
      and "q_startDate q = None"
  shows "getMessages_query dateRange =
           (''SELECT * FROM messages ORDER BY timestamp ASC LIMIT 1000'', []) \<and>
         api_messages_query parseInt q =
           (''SELECT * FROM messages ORDER BY timestamp ASC LIMIT 1000'', []) \<and>
         step s (GetMessages c dateRange now (Inr other)) =
           Inr (s, [(c, MessageHistory
             (map (\<lambda>r. \<lparr>msg_id = messages_id r, msg_content = Some (messages_content r),
                         msg_timestamp = messages_timestamp r,
                         msg_user = \<lparr>studentId = messages_student_id r,
                                     name = messages_user_name r\<rparr>\<rparr>)
                (take 1000 (sort_key messages_timestamp (messages s)))))]) \<and>
         api_messages parseInt s q now' (Inr other') =
           Json200
             (map (\<lambda>r. \<lparr>msg_id = messages_id r, msg_content = Some (messages_content r),
                         msg_timestamp = messages_timestamp r,
                         msg_user = \<lparr>studentId = messages_student_id r,
                                     name = messages_user_name r\<rparr>\<rparr>)
                (take 1000 (sort_key messages_timestamp (messages s)))) \<and>
         (length (messages s) \<le> 1000 \<longrightarrow>
            mset (take 1000 (sort_key messages_timestamp (messages s))) = mset (messages s))"
proof -
  have w: "getMessages_where dateRange = NoWhere"
    using assms(1,2) by (auto simp: getMessages_where_def)
  have w': "api_messages_where parseInt q = NoWhere"
    using assms(3,4) by (auto simp: api_messages_where_def)
  have q: "getMessages_query dateRange =
      (''SELECT * FROM messages ORDER BY timestamp ASC LIMIT 1000'', [])"
    by (simp add: getMessages_query_def w)
  have q': "api_messages_query parseInt q =
      (''SELECT * FROM messages ORDER BY timestamp ASC LIMIT 1000'', [])"
    by (simp add: api_messages_query_def w')
  have fm: "format_message = (\<lambda>r. \<lparr>msg_id = messages_id r, msg_content = Some (messages_content r),
                         msg_timestamp = messages_timestamp r,
                         msg_user = \<lparr>studentId = messages_student_id r,
                                     name = messages_user_name r\<rparr>\<rparr>)"
    by (rule ext) (simp add: format_message_def)
  have st: "step s (GetMessages c dateRange now (Inr other)) =
      Inr (s, [(c, MessageHistory
        (map format_message (take 1000 (sort_key messages_timestamp (messages s)))))])"
    by (simp add: getMessages_def q db_all_plain socket_emit_def)
  have ht: "api_messages parseInt s q now' (Inr other') =
      Json200 (map format_message (take 1000 (sort_key messages_timestamp (messages s))))"
    by (simp add: api_messages_def q' db_all_plain)
  have t: "length (messages s) \<le> 1000 \<longrightarrow>
      mset (take 1000 (sort_key messages_timestamp (messages s))) = mset (messages s)"
    by (simp add: mset_take_all)
  show ?thesis using q q' st ht t unfolding fm by blast
qed

theorem history_unfiltered_witness:
  "(days \<lparr>days = Some (Number 0), startDate = None, endDate = Some ''2024-01-31''\<rparr> = None \<or>
    days \<lparr>days = Some (Number 0), startDate = None, endDate = Some ''2024-01-31''\<rparr> =
      Some (Number 0)) \<and>
   startDate \<lparr>days = Some (Number 0), startDate = None, endDate = Some ''2024-01-31''\<rparr> = None \<and>
   (q_days \<lparr>q_days = Some ''0'', q_startDate = None, q_endDate = None\<rparr> = None \<or>
    q_days \<lparr>q_days = Some ''0'', q_startDate = None, q_endDate = None\<rparr> = Some ''0'') \<and>
   q_startDate \<lparr>q_days = Some ''0'', q_startDate = None, q_endDate = None\<rparr> = None \<and>
   getMessages_query \<lparr>days = Some (Number 0), startDate = None, endDate = Some ''2024-01-31''\<rparr> =
     (''SELECT * FROM messages ORDER BY timestamp ASC LIMIT 1000'', []) \<and>
   api_messages_query (\<lambda>t. None) \<lparr>q_days = Some ''0'', q_startDate = None, q_endDate = None\<rparr> =
     (''SELECT * FROM messages ORDER BY timestamp ASC LIMIT 1000'', []) \<and>
   step
     (init\<lparr>messages :=
        [\<lparr>messages_id = 1, messages_student_id = ''2021001'', messages_user_name = None,
          messages_content = ''hi'', messages_timestamp = ''2024-01-01T00:00:02.000Z''\<rparr>,
         \<lparr>messages_id = 2, messages_student_id = ''2021002'', messages_user_name = Some ''Li'',
          messages_content = ''ho'', messages_timestamp = ''2024-01-01T00:00:01.000Z''\<rparr>]\<rparr>)
     (GetMessages ''a'' \<lparr>days = Some (Number 0), startDate = None, endDate = Some ''2024-01-31''\<rparr>
        1704715200000 (Inr [])) =
   Inr (init\<lparr>messages :=
          [\<lparr>messages_id = 1, messages_student_id = ''2021001'', messages_user_name = None,
            messages_content = ''hi'', messages_timestamp = ''2024-01-01T00:00:02.000Z''\<rparr>,
           \<lparr>messages_id = 2, messages_student_id = ''2021002'', messages_user_name = Some ''Li'',
            messages_content = ''ho'', messages_timestamp = ''2024-01-01T00:00:01.000Z''\<rparr>]\<rparr>,
        [(''a'', MessageHistory
           [\<lparr>msg_id = 2, msg_content = Some ''ho'', msg_timestamp = ''2024-01-01T00:00:01.000Z'',
             msg_user = \<lparr>studentId = ''2021002'', name = Some ''Li''\<rparr>\<rparr>,
            \<lparr>msg_id = 1, msg_content = Some ''hi'', msg_timestamp = ''2024-01-01T00:00:02.000Z'',
             msg_user = \<lparr>studentId = ''2021001'', name = None\<rparr>\<rparr>])]) \<and>
   api_messages (\<lambda>t. None)
     (init\<lparr>messages :=
        [\<lparr>messages_id = 1, messages_student_id = ''2021001'', messages_user_name = None,
          messages_content = ''hi'', messages_timestamp = ''2024-01-01T00:00:02.000Z''\<rparr>,
         \<lparr>messages_id = 2, messages_student_id = ''2021002'', messages_user_name = Some ''Li'',
          messages_content = ''ho'', messages_timestamp = ''2024-01-01T00:00:01.000Z''\<rparr>]\<rparr>)
     \<lparr>q_days = Some ''0'', q_startDate = None, q_endDate = None\<rparr> 1704715200000 (Inr []) =
   Json200
     [\<lparr>msg_id = 2, msg_content = Some ''ho'', msg_timestamp = ''2024-01-01T00:00:01.000Z'',
       msg_user = \<lparr>studentId = ''2021002'', name = Some ''Li''\<rparr>\<rparr>,
      \<lparr>msg_id = 1, msg_content = Some ''hi'', msg_timestamp = ''2024-01-01T00:00:02.000Z'',
       msg_user = \<lparr>studentId = ''2021001'', name = None\<rparr>\<rparr>]"
proof -
  let ?dr = "\<lparr>days = Some (Number 0), startDate = None, endDate = Some ''2024-01-31''\<rparr>"
  let ?q = "\<lparr>q_days = Some ''0'', q_startDate = None, q_endDate = None\<rparr>"
  let ?s = "init\<lparr>messages :=
        [\<lparr>messages_id = 1, messages_student_id = ''2021001'', messages_user_name = None,
          messages_content = ''hi'', messages_timestamp = ''2024-01-01T00:00:02.000Z''\<rparr>,
         \<lparr>messages_id = 2, messages_student_id = ''2021002'', messages_user_name = Some ''Li'',
          messages_content = ''ho'', messages_timestamp = ''2024-01-01T00:00:01.000Z''\<rparr>]\<rparr>"
  have h1: "days ?dr = None \<or> days ?dr = Some (Number 0)" by simp
  have h2: "startDate ?dr = None" by simp
  have h3: "q_days ?q = None \<or> q_days ?q = Some ''0''" by simp
  have h4: "q_startDate ?q = None" by simp
  show ?thesis
    using h1 h2 h3 h4
      history_unfiltered [OF h1 h2 h3 h4, where s = ?s and c = "''a''" and now = 1704715200000
        and now' = 1704715200000 and other = "[]" and other' = "[]" and parseInt = "\<lambda>t. None"]
    by simp
qed

text \<open>
  Over HTTP a \<open>days\<close> text other than \<open>0\<close> that \<open>parseInt\<close> reads as 0, such as
  \<open>00\<close>, is not treated as unfiltered.
\<close>

lemma api_messages_days_00:
  "api_messages_where parseInt \<lparr>q_days = Some ''00'', q_startDate = None, q_endDate = None\<rparr> =
     TimestampSince (number_text (parseInt ''00''))"
  by (simp add: api_messages_where_def)

section \<open>Counting joins and leaves\<close>

text \<open>
  C4, as stated, fails: two joins of one user from two connections and no leave give a
  presence list of one row, not two.
\<close>

theorem presence_count_counterexample:
  "run init
     [Connect ''a'', Connect ''b'',
      Join ''a'' \<lparr>studentId = ''2021001'', name = None\<rparr> ''2024-01-01 00:00:01''
        (Inr [\<lparr>online_student_id = ''2021001'', online_user_name = None,
               online_socket_id = ''a'', online_joined_at = ''2024-01-01 00:00:01''\<rparr>]),
      Join ''b'' \<lparr>studentId = ''2021001'', name = None\<rparr> ''2024-01-01 00:00:02''
        (Inr [\<lparr>online_student_id = ''2021001'', online_user_name = None,
               online_socket_id = ''b'', online_joined_at = ''2024-01-01 00:00:02''\<rparr>])] =
   Inr \<lparr>sockets = [''a'', ''b''],
        connectedUsers =
          [''a'' \<mapsto> \<lparr>cu_studentId = ''2021001'', cu_name = None, socketId = ''a''\<rparr>,
           ''b'' \<mapsto> \<lparr>cu_studentId = ''2021001'', cu_name = None, socketId = ''b''\<rparr>],
        messages = [], messages_seq = 0,
        online_users =
          [\<lparr>online_student_id = ''2021001'', online_user_name = None,
            online_socket_id = ''b'', online_joined_at = ''2024-01-01 00:00:02''\<rparr>]\<rparr> \<and>
   length (filter is_join
     [Connect ''a'', Connect ''b'',
      Join ''a'' \<lparr>studentId = ''2021001'', name = None\<rparr> ''2024-01-01 00:00:01''
        (Inr [\<lparr>online_student_id = ''2021001'', online_user_name = None,
               online_socket_id = ''a'', online_joined_at = ''2024-01-01 00:00:01''\<rparr>]),
      Join ''b'' \<lparr>studentId = ''2021001'', name = None\<rparr> ''2024-01-01 00:00:02''
        (Inr [\<lparr>online_student_id = ''2021001'', online_user_name = None,
               online_socket_id = ''b'', online_joined_at = ''2024-01-01 00:00:02''\<rparr>])]) = 2 \<and>
   length (filter is_disconnect
     [Connect ''a'', Connect ''b'',
      Join ''a'' \<lparr>studentId = ''2021001'', name = None\<rparr> ''2024-01-01 00:00:01''
        (Inr [\<lparr>online_student_id = ''2021001'', online_user_name = None,
               online_socket_id = ''a'', online_joined_at = ''2024-01-01 00:00:01''\<rparr>]),
      Join ''b'' \<lparr>studentId = ''2021001'', name = None\<rparr> ''2024-01-01 00:00:02''
        (Inr [\<lparr>online_student_id = ''2021001'', online_user_name = None,
               online_socket_id = ''b'', online_joined_at = ''2024-01-01 00:00:02''\<rparr>])]) = 0 \<and>
   length (online_users
     \<lparr>sockets = [''a'', ''b''],
        connectedUsers =
          [''a'' \<mapsto> \<lparr>cu_studentId = ''2021001'', cu_name = None, socketId = ''a''\<rparr>,
           ''b'' \<mapsto> \<lparr>cu_studentId = ''2021001'', cu_name = None, socketId = ''b''\<rparr>],
        messages = [], messages_seq = 0,
        online_users =
          [\<lparr>online_student_id = ''2021001'', online_user_name = None,
            online_socket_id = ''b'', online_joined_at = ''2024-01-01 00:00:02''\<rparr>]\<rparr>) \<noteq> 2 - 0"
  by (simp add: init_def join_def insert_or_replace_online_def Let_def)

lemma filter_distinct_length:
  "distinct (map f xs) \<Longrightarrow> c \<in> set (map f xs) \<Longrightarrow>
   Suc (length (filter (\<lambda>x. f x \<noteq> c) xs)) = length xs"
proof (induction xs)
  case Nil
  then show ?case by simp
next
  case (Cons x xs)
  show ?case
  proof (cases "f x = c")
    case True
    then have "c \<notin> set (map f xs)" using Cons.prems(1) by auto
    then have "filter (\<lambda>x. f x \<noteq> c) xs = xs" by (auto simp: filter_id_conv)
    then show ?thesis using True by simp
  next
    case False
    then show ?thesis using Cons by auto
  qed
qed

lemma join_regular:
  assumes "join s c u t a = (s1, out)" and "regular_event s (Join c u t a)" and "presence_inv s"
  shows "presence_inv s1" and "length (online_users s1) = Suc (length (online_users s))"
proof -
  let ?r = "\<lparr>online_student_id = studentId u, online_user_name = name u,
             online_socket_id = c, online_joined_at = t\<rparr>"
  have fresh: "connectedUsers s c = None"
    and absent: "studentId u \<notin> set (map online_student_id (online_users s))"
    using assms(2) by simp_all
  have "\<forall>x \<in> set (online_users s). online_student_id x \<noteq> studentId u"
    using absent by force
  then have "filter (\<lambda>x. online_student_id x \<noteq> studentId u) (online_users s) = online_users s"
    by (simp add: filter_id_conv)
  then have rows: "online_users s1 = online_users s @ [?r]"
    using join_state(1) [OF assms(1)] by (simp add: insert_or_replace_online_def)
  have cu: "connectedUsers s1 =
      (connectedUsers s)(c \<mapsto> \<lparr>cu_studentId = studentId u, cu_name = name u, socketId = c\<rparr>)"
    by (rule join_state(2) [OF assms(1)])
  have "c \<notin> set (map online_socket_id (online_users s))"
    using fresh assms(3) by (auto simp: presence_inv_def)
  then show "presence_inv s1"
    using assms(3) by (auto simp: presence_inv_def rows cu)
  show "length (online_users s1) = Suc (length (online_users s))"
    by (simp add: rows)
qed

lemma disconnect_regular:
  assumes "disconnect (s\<lparr>sockets := ks\<rparr>) c a = (s1, out)"
      and "regular_event s (Disconnect c a)" and "presence_inv s"
  shows "presence_inv s1" and "Suc (length (online_users s1)) = length (online_users s)"
    and "c \<notin> set (map online_socket_id (online_users s1))"
proof -
  have joined: "connectedUsers s c \<noteq> None" using assms(2) by simp
  have rows: "online_users s1 = filter (\<lambda>x. online_socket_id x \<noteq> c) (online_users s)"
    using disconnect_state(1) [OF assms(1)] joined by (simp add: delete_online_by_socket_def)
  have cu: "connectedUsers s1 = (connectedUsers s)(c := None)"
    using disconnect_state(2) [OF assms(1)] by simp
  have d: "distinct (map online_socket_id (online_users s))"
    and eq: "set (map online_socket_id (online_users s)) = dom (connectedUsers s)"
    using assms(3) by (simp_all add: presence_inv_def)
  have "distinct (map online_socket_id (online_users s1))"
    unfolding rows using d by (rule distinct_map_filter)
  moreover have "set (map online_socket_id (online_users s1)) = dom (connectedUsers s1)"
    using eq unfolding rows cu by auto
  ultimately show "presence_inv s1" by (simp add: presence_inv_def)
  have "c \<in> set (map online_socket_id (online_users s))"
    using joined eq by auto
  then show "Suc (length (online_users s1)) = length (online_users s)"
    unfolding rows using d by (rule filter_distinct_length [rotated])
  show "c \<notin> set (map online_socket_id (online_users s1))"
    unfolding rows by auto
qed

lemma step_regular:
  assumes "step s e = Inr (s1, out)" and "regular_event s e" and "presence_inv s"
  shows "presence_inv s1 \<and>
         length (online_users s1) + (if is_disconnect e then 1 else 0) =
         length (online_users s) + (if is_join e then 1 else 0)"
proof (cases e)
  case (Connect c)
  then have "online_users s1 = online_users s" and "connectedUsers s1 = connectedUsers s"
    using assms(1) by (auto split: if_splits)
  then show ?thesis using assms(3) Connect by (simp add: presence_inv_def)
next
  case (Join c u t a)
  then show ?thesis using assms join_regular [of s c u t a s1 out] by simp
next
  case (SendMessage c md now ok)
  then show ?thesis using assms sendMessage_presence [of s c md now ok s1 out]
    by (simp add: presence_inv_def)
next
  case (GetMessages c dr now a)
  then show ?thesis using assms by auto
next
  case (Disconnect c a)
  then show ?thesis
    using assms disconnect_regular [where s = s and ks = "removeAll c (sockets s)" and c = c
        and a = a and ?s1.0 = s1 and out = out] by simp
qed

lemma regular_run_count:
  assumes "regular_run s es" and "presence_inv s" and "run s es = Inr s'"
  shows "presence_inv s' \<and>
         length (online_users s') + length (filter is_disconnect es) =
         length (online_users s) + length (filter is_join es)"
  using assms
proof (induction es arbitrary: s)
  case Nil
  then show ?case by simp
next
  case (Cons e es)
  from Cons.prems(3) obtain s1 out where st: "step s e = Inr (s1, out)" and r: "run s1 es = Inr s'"
    using run_Cons_Inr by blast
  have reg: "regular_event s e" and rest: "regular_run s1 es"
    using Cons.prems(1) st by simp_all
  have one: "presence_inv s1 \<and>
      length (online_users s1) + (if is_disconnect e then 1 else 0) =
      length (online_users s) + (if is_join e then 1 else 0)"
    using st reg Cons.prems(2) by (rule step_regular)
  then have "presence_inv s' \<and>
      length (online_users s') + length (filter is_disconnect es) =
      length (online_users s1) + length (filter is_join es)"
    using Cons.IH rest r by blast
  then show ?case using one by (auto split: if_splits)
qed

lemma step_no_row_of_other:
  assumes "step s e = Inr (s1, out)" and "connection_of e \<noteq> c"
      and "c \<notin> set (map online_socket_id (online_users s))"
  shows "c \<notin> set (map online_socket_id (online_users s1))"
proof (cases e)
  case (Connect k)
  then have "online_users s1 = online_users s"
    using assms(1) by (auto split: if_splits)
  then show ?thesis using assms(3) by simp
next
  case (Join k u t a)
  then have "join s k u t a = (s1, out)" using assms(1) by simp
  then have "online_users s1 =
      insert_or_replace_online \<lparr>online_student_id = studentId u, online_user_name = name u,
        online_socket_id = k, online_joined_at = t\<rparr> (online_users s)"
    by (rule join_state)
  then show ?thesis using assms(2,3) Join by (auto simp: insert_or_replace_online_def)
next
  case (SendMessage k md now ok)
  then show ?thesis using assms sendMessage_presence [of s k md now ok s1 out] by simp
next
  case (GetMessages k dr now a)
  then show ?thesis using assms by auto
next
  case (Disconnect k a)
  then have "disconnect (s\<lparr>sockets := removeAll k (sockets s)\<rparr>) k a = (s1, out)"
    using assms(1) by simp
  from disconnect_state(1) [OF this] show ?thesis
    using assms(3) by (auto simp: delete_online_by_socket_def split: if_splits)
qed

lemma run_no_row_of_other:
  assumes "run s es = Inr s'" and "c \<notin> set (map connection_of es)"
      and "c \<notin> set (map online_socket_id (online_users s))"
  shows "c \<notin> set (map online_socket_id (online_users s'))"
  using assms
proof (induction es arbitrary: s)
  case Nil
  then show ?case by simp
next
  case (Cons e es)
  from Cons.prems(1) obtain s1 out where st: "step s e = Inr (s1, out)" and r: "run s1 es = Inr s'"
    using run_Cons_Inr by blast
  have "connection_of e \<noteq> c" using Cons.prems(2) by auto
  then have "c \<notin> set (map online_socket_id (online_users s1))"
    using st Cons.prems(3) step_no_row_of_other by blast
  moreover have "c \<notin> set (map connection_of es)" using Cons.prems(2) by simp
  ultimately show ?case using Cons.IH r by blast
qed

lemma remaining_not_left:
  assumes "silent_after_leave es" and "regular_run s es" and "presence_inv s"
      and "run s es = Inr s'"
  shows "\<forall>r \<in> set (online_users s'). online_socket_id r \<notin> set (left_connections es)"
  using assms
proof (induction es arbitrary: s)
  case Nil
  then show ?case by (simp add: left_connections_def)
next
  case (Cons e es)
  from Cons.prems(4) obtain s1 out where st: "step s e = Inr (s1, out)" and r: "run s1 es = Inr s'"
    using run_Cons_Inr by blast
  have reg: "regular_event s e" and rest: "regular_run s1 es"
    using Cons.prems(2) st by simp_all
  have inv1: "presence_inv s1" using step_regular [OF st reg Cons.prems(3)] by simp
  have sil: "silent_after_leave es" using Cons.prems(1) by simp
  have ih: "\<forall>r \<in> set (online_users s'). online_socket_id r \<notin> set (left_connections es)"
    using Cons.IH [OF sil rest inv1 r] .
  show ?case
  proof (cases "is_disconnect e")
    case False
    then show ?thesis using ih by (simp add: left_connections_def)
  next
    case True
    then obtain c a where e: "e = Disconnect c a" by (cases e) auto
    have "disconnect (s\<lparr>sockets := removeAll c (sockets s)\<rparr>) c a = (s1, out)"
      using st e by simp
    then have gone: "c \<notin> set (map online_socket_id (online_users s1))"
      using reg Cons.prems(3) unfolding e by (rule disconnect_regular(3))
    have "c \<notin> set (map connection_of es)" using Cons.prems(1) e by simp
    then have "c \<notin> set (map online_socket_id (online_users s'))"
      using r gone run_no_row_of_other by blast
    then show ?thesis using ih e by (auto simp: left_connections_def)
  qed
qed

lemma presence_inv_init: "presence_inv init"
  by (simp add: presence_inv_def init_def)

text \<open>
  C4, amended. In a run from the initial state in which every join is by a connection that
  is not joined and for a user who is not in the presence list, every disconnect is by a
  joined connection, and no connection acts after its disconnect: with N joins and M
  leaves, the presence list has N - M rows (stated as rows + M = N), and no row belongs
  to a connection that has left.
\<close>

theorem presence_count:
  assumes "regular_run init es" and "silent_after_leave es" and "run init es = Inr s"
  shows "length (online_users s) + length (filter is_disconnect es) =
           length (filter is_join es) \<and>
         (\<forall>r \<in> set (online_users s). online_socket_id r \<notin> set (left_connections es))"
proof -
  have "length (online_users s) + length (filter is_disconnect es) =
      length (online_users init) + length (filter is_join es)"
    using regular_run_count [OF assms(1) presence_inv_init assms(3)] by simp
  then have "length (online_users s) + length (filter is_disconnect es) =
      length (filter is_join es)"
    by (simp add: init_def)
  then show ?thesis
    using remaining_not_left [OF assms(2) assms(1) presence_inv_init assms(3)] by simp
qed

theorem presence_count_witness:
  "regular_run init
     [Connect ''a'', Connect ''b'',
      Join ''a'' \<lparr>studentId = ''2021001'', name = None\<rparr> ''2024-01-01 00:00:01'' (Inl EngineFailure),
      Join ''b'' \<lparr>studentId = ''2021002'', name = None\<rparr> ''2024-01-01 00:00:02'' (Inl EngineFailure),
      Disconnect ''a'' (Inl EngineFailure)] \<and>
   silent_after_leave
     [Connect ''a'', Connect ''b'',
      Join ''a'' \<lparr>studentId = ''2021001'', name = None\<rparr> ''2024-01-01 00:00:01'' (Inl EngineFailure),
      Join ''b'' \<lparr>studentId = ''2021002'', name = None\<rparr> ''2024-01-01 00:00:02'' (Inl EngineFailure),
      Disconnect ''a'' (Inl EngineFailure)] \<and>
   run init
     [Connect ''a'', Connect ''b'',
      Join ''a'' \<lparr>studentId = ''2021001'', name = None\<rparr> ''2024-01-01 00:00:01'' (Inl EngineFailure),
      Join ''b'' \<lparr>studentId = ''2021002'', name = None\<rparr> ''2024-01-01 00:00:02'' (Inl EngineFailure),
      Disconnect ''a'' (Inl EngineFailure)] =
   Inr \<lparr>sockets = [''b''],
        connectedUsers = [''b'' \<mapsto> \<lparr>cu_studentId = ''2021002'', cu_name = None, socketId = ''b''\<rparr>],
        messages = [], messages_seq = 0,
        online_users =
          [\<lparr>online_student_id = ''2021002'', online_user_name = None,
            online_socket_id = ''b'', online_joined_at = ''2024-01-01 00:00:02''\<rparr>]\<rparr> \<and>
   length (online_users
     \<lparr>sockets = [''b''],
        connectedUsers = [''b'' \<mapsto> \<lparr>cu_studentId = ''2021002'', cu_name = None, socketId = ''b''\<rparr>],
        messages = [], messages_seq = 0,
        online_users =
          [\<lparr>online_student_id = ''2021002'', online_user_name = None,
            online_socket_id = ''b'', online_joined_at = ''2024-01-01 00:00:02''\<rparr>]\<rparr>) + 1 = 2"
proof -
  let ?es = "[Connect ''a'', Connect ''b'',
      Join ''a'' \<lparr>studentId = ''2021001'', name = None\<rparr> ''2024-01-01 00:00:01'' (Inl EngineFailure),
      Join ''b'' \<lparr>studentId = ''2021002'', name = None\<rparr> ''2024-01-01 00:00:02'' (Inl EngineFailure),
      Disconnect ''a'' (Inl EngineFailure)]"
  let ?s = "\<lparr>sockets = [''b''],
        connectedUsers = [''b'' \<mapsto> \<lparr>cu_studentId = ''2021002'', cu_name = None, socketId = ''b''\<rparr>],
        messages = [], messages_seq = 0,
        online_users =
          [\<lparr>online_student_id = ''2021002'', online_user_name = None,
            online_socket_id = ''b'', online_joined_at = ''2024-01-01 00:00:02''\<rparr>]\<rparr>"
  have h1: "regular_run init ?es"
    by (simp add: init_def join_def disconnect_def insert_or_replace_online_def
        delete_online_by_socket_def Let_def)
  have h2: "silent_after_leave ?es" by simp
  have h3: "run init ?es = Inr ?s"
    by (simp add: init_def join_def disconnect_def insert_or_replace_online_def
        delete_online_by_socket_def Let_def fun_upd_twist)
  show ?thesis using h1 h2 h3 presence_count [OF h1 h2 h3] by simp
qed

section \<open>A disconnect after the row was replaced\<close>

lemma step_keeps_connection:
  assumes "step s e = Inr (s1, out)" and "keeps_connection c e"
  shows "connectedUsers s1 c = connectedUsers s c"
proof (cases e)
  case (Connect k)
  then show ?thesis using assms(1) by (auto split: if_splits)
next
  case (Join k u t a)
  then have "join s k u t a = (s1, out)" and "k \<noteq> c"
    using assms by (simp_all add: keeps_connection_def)
  then show ?thesis using join_state(2) [of s k u t a s1 out] by simp
next
  case (SendMessage k md now ok)
  then show ?thesis using assms(1) sendMessage_presence [of s k md now ok s1 out] by simp
next
  case (GetMessages k dr now a)
  then show ?thesis using assms(1) by auto
next
  case (Disconnect k a)
  then have "disconnect (s\<lparr>sockets := removeAll k (sockets s)\<rparr>) k a = (s1, out)" and "k \<noteq> c"
    using assms by (simp_all add: keeps_connection_def)
  then show ?thesis
    using disconnect_state(2) [where s = "s\<lparr>sockets := removeAll k (sockets s)\<rparr>" and c = k
        and a = a and ?s1.0 = s1 and out = out] by simp
qed

lemma run_keeps_connection:
  assumes "run s es = Inr s'" and "list_all (keeps_connection c) es"
  shows "connectedUsers s' c = connectedUsers s c"
  using assms
proof (induction es arbitrary: s)
  case Nil
  then show ?case by simp
next
  case (Cons e es)
  from Cons.prems(1) obtain s1 out where st: "step s e = Inr (s1, out)" and r: "run s1 es = Inr s'"
    using run_Cons_Inr by blast
  have "connectedUsers s1 c = connectedUsers s c"
    using st Cons.prems(2) by (simp add: step_keeps_connection)
  moreover have "connectedUsers s' c = connectedUsers s1 c"
    using Cons.IH r Cons.prems(2) by simp
  ultimately show ?case by simp
qed

text \<open>Whether connection \<open>c\<close> holds a row of user \<open>u\<close>.\<close>

lemma step_keeps_row:
  assumes "step s e = Inr (s1, out)" and "keeps_row c u e"
      and "\<exists>r \<in> set (online_users s). online_student_id r = u \<and> online_socket_id r = c"
  shows "\<exists>r \<in> set (online_users s1). online_student_id r = u \<and> online_socket_id r = c"
proof (cases e)
  case (Connect k)
  then have "online_users s1 = online_users s" using assms(1) by (auto split: if_splits)
  then show ?thesis using assms(3) by simp
next
  case (Join k v t a)
  then have "join s k v t a = (s1, out)" using assms(1) by simp
  then have rows: "online_users s1 =
      insert_or_replace_online \<lparr>online_student_id = studentId v, online_user_name = name v,
        online_socket_id = k, online_joined_at = t\<rparr> (online_users s)"
    by (rule join_state)
  show ?thesis
  proof (cases "studentId v = u")
    case True
    then have "k = c" using assms(2) Join by simp
    then show ?thesis using True by (simp add: rows insert_or_replace_online_def)
  next
    case False
    then show ?thesis using assms(3) by (auto simp: rows insert_or_replace_online_def)
  qed
next
  case (SendMessage k md now ok)
  then show ?thesis using assms(1,3) sendMessage_presence [of s k md now ok s1 out] by simp
next
  case (GetMessages k dr now a)
  then show ?thesis using assms(1,3) by auto
next
  case (Disconnect k a)
  then have d: "disconnect (s\<lparr>sockets := removeAll k (sockets s)\<rparr>) k a = (s1, out)" and "k \<noteq> c"
    using assms by simp_all
  then show ?thesis
    using disconnect_state(1) [OF d] assms(3)
    by (auto simp: delete_online_by_socket_def split: if_splits)
qed

lemma run_keeps_row:
  assumes "run s es = Inr s'" and "list_all (keeps_row c u) es"
      and "\<exists>r \<in> set (online_users s). online_student_id r = u \<and> online_socket_id r = c"
  shows "\<exists>r \<in> set (online_users s'). online_student_id r = u \<and> online_socket_id r = c"
  using assms
proof (induction es arbitrary: s)
  case Nil
  then show ?case by simp
next
  case (Cons e es)
  from Cons.prems(1) obtain s1 out where st: "step s e = Inr (s1, out)" and r: "run s1 es = Inr s'"
    using run_Cons_Inr by blast
  have "\<exists>r \<in> set (online_users s1). online_student_id r = u \<and> online_socket_id r = c"
    using st Cons.prems(2,3) by (simp add: step_keeps_row)
  then show ?case using Cons.IH r Cons.prems(2) by simp
qed

lemma broadcast_after_removal:
  "sockets s' = removeAll c ks \<Longrightarrow> broadcast_emit s' c e = map (\<lambda>k. (k, e)) (removeAll c ks)"
  by (simp add: broadcast_emit_def filter_id_conv)

text \<open>
  C10. User \<open>u\<close> joins on \<open>c1\<close> and later on another connection \<open>c2\<close>; in between
  \<open>c1\<close> neither joins again nor disconnects, and afterwards also \<open>c2\<close> does not
  disconnect and no third connection joins as \<open>u\<close>. When \<open>c1\<close> then disconnects, every
  remaining connection is sent \<open>userLeft\<close> with \<open>u\<close> and the name \<open>c1\<close> joined with,
  followed by the \<open>userListUpdate\<close>, whose list, for every listing the engine may give,
  still has \<open>u\<close>; and \<open>u\<close> is still in \<open>online_users\<close>.
\<close>

theorem stale_disconnect_announces_leave:
  assumes "c1 \<noteq> c2" and "studentId v2 = studentId v1"
      and "run s0 (Join c1 v1 t1 a1 # es1 @ Join c2 v2 t2 a2 # es2) = Inr s"
      and "list_all (keeps_connection c1) es1"
      and "list_all (\<lambda>e. keeps_connection c1 e \<and> keeps_row c2 (studentId v1) e) es2"
      and "answer_ok s (Disconnect c1 (Inr ordered))"
  shows "\<exists>s'. step s (Disconnect c1 (Inr ordered)) =
           Inr (s', map (\<lambda>k. (k, UserLeft \<lparr>studentId = studentId v1, name = name v1\<rparr>))
                      (removeAll c1 (sockets s)) @
                    map (\<lambda>k. (k, UserListUpdate
                           (map (\<lambda>u. \<lparr>entry_studentId = online_student_id u,
                                      entry_name = online_user_name u, online = True\<rparr>) ordered)))
                      (removeAll c1 (sockets s))) \<and>
           studentId v1 \<in> set (map online_student_id ordered) \<and>
           studentId v1 \<in> set (map online_student_id (online_users s'))"
proof -
  let ?u = "studentId v1"
  let ?cu = "\<lparr>cu_studentId = studentId v1, cu_name = name v1, socketId = c1\<rparr>"
  let ?ks = "removeAll c1 (sockets s)"
  from assms(3) obtain sa outa where ja: "join s0 c1 v1 t1 a1 = (sa, outa)"
    and ra: "run sa (es1 @ Join c2 v2 t2 a2 # es2) = Inr s"
    by (cases "join s0 c1 v1 t1 a1") auto
  from ra obtain sb where rb: "run sa es1 = Inr sb" and rc: "run sb (Join c2 v2 t2 a2 # es2) = Inr s"
    unfolding run_append by (auto split: sum.splits)
  from rc obtain sc outc where jc: "join sb c2 v2 t2 a2 = (sc, outc)" and rd: "run sc es2 = Inr s"
    by (cases "join sb c2 v2 t2 a2") auto
  have "connectedUsers sa c1 = Some ?cu" using join_state(2) [OF ja] by simp
  then have "connectedUsers sb c1 = Some ?cu"
    using run_keeps_connection [OF rb assms(4)] by simp
  then have "connectedUsers sc c1 = Some ?cu"
    using join_state(2) [OF jc] assms(1) by simp
  moreover have k2: "list_all (keeps_connection c1) es2" and r2: "list_all (keeps_row c2 ?u) es2"
    using assms(5) by (simp_all add: list_all_iff)
  ultimately have cu: "connectedUsers s c1 = Some ?cu"
    using run_keeps_connection [OF rd k2] by simp
  have "\<exists>r \<in> set (online_users sc). online_student_id r = ?u \<and> online_socket_id r = c2"
    using join_state(1) [OF jc] assms(2) by (simp add: insert_or_replace_online_def)
  then have row: "\<exists>r \<in> set (online_users s). online_student_id r = ?u \<and> online_socket_id r = c2"
    using run_keeps_row [OF rd r2] by simp
  obtain s' out where d: "disconnect (s\<lparr>sockets := ?ks\<rparr>) c1 (Inr ordered) = (s', out)"
    by (cases "disconnect (s\<lparr>sockets := ?ks\<rparr>) c1 (Inr ordered)")
  have sk: "sockets s' = ?ks" using disconnect_state(3) [OF d] by simp
  have rows: "online_users s' = delete_online_by_socket c1 (online_users s)"
    using disconnect_state(1) [OF d] cu by simp
  have out: "out = broadcast_emit s' c1 (UserLeft \<lparr>studentId = ?u, name = name v1\<rparr>) @
      updateUserList s' (Inr ordered)"
    using d cu by (auto simp: disconnect_def Let_def)
  have still: "?u \<in> set (map online_student_id (online_users s'))"
    using row assms(1) unfolding rows by (force simp: delete_online_by_socket_def)
  have "select_online_users s' ordered" using assms(6) d by simp
  then have "mset ordered = mset (online_users s')" by (simp add: select_online_users_def)
  then have "set ordered = set (online_users s')" by (rule mset_eq_setD)
  then have listed: "?u \<in> set (map online_student_id ordered)" using still by simp
  have "step s (Disconnect c1 (Inr ordered)) = Inr (s', out)" using d by simp
  then show ?thesis
    using listed still
    by (auto simp: out broadcast_after_removal [OF sk] updateUserList_def io_emit_def sk)
qed

theorem stale_disconnect_announces_leave_witness:
  "''a'' \<noteq> ''b'' \<and>
   studentId \<lparr>studentId = ''2021001'', name = Some ''San''\<rparr> =
     studentId \<lparr>studentId = ''2021001'', name = Some ''Zhang''\<rparr> \<and>
   run (init\<lparr>sockets := [''a'', ''b'', ''c'']\<rparr>)
     (Join ''a'' \<lparr>studentId = ''2021001'', name = Some ''Zhang''\<rparr> ''2024-01-01 00:00:01''
        (Inl EngineFailure) # [] @
      Join ''b'' \<lparr>studentId = ''2021001'', name = Some ''San''\<rparr> ''2024-01-01 00:00:02''
        (Inl EngineFailure) # []) =
   Inr \<lparr>sockets = [''a'', ''b'', ''c''],
        connectedUsers =
          [''a'' \<mapsto> \<lparr>cu_studentId = ''2021001'', cu_name = Some ''Zhang'', socketId = ''a''\<rparr>,
           ''b'' \<mapsto> \<lparr>cu_studentId = ''2021001'', cu_name = Some ''San'', socketId = ''b''\<rparr>],
        messages = [], messages_seq = 0,
        online_users =
          [\<lparr>online_student_id = ''2021001'', online_user_name = Some ''San'',
            online_socket_id = ''b'', online_joined_at = ''2024-01-01 00:00:02''\<rparr>]\<rparr> \<and>
   list_all (keeps_connection ''a'') [] \<and>
   list_all (\<lambda>e. keeps_connection ''a'' e \<and> keeps_row ''b'' ''2021001'' e) [] \<and>
   answer_ok
     \<lparr>sockets = [''a'', ''b'', ''c''],
        connectedUsers =
          [''a'' \<mapsto> \<lparr>cu_studentId = ''2021001'', cu_name = Some ''Zhang'', socketId = ''a''\<rparr>,
           ''b'' \<mapsto> \<lparr>cu_studentId = ''2021001'', cu_name = Some ''San'', socketId = ''b''\<rparr>],
        messages = [], messages_seq = 0,
        online_users =
          [\<lparr>online_student_id = ''2021001'', online_user_name = Some ''San'',
            online_socket_id = ''b'', online_joined_at = ''2024-01-01 00:00:02''\<rparr>]\<rparr>
     (Disconnect ''a''
        (Inr [\<lparr>online_student_id = ''2021001'', online_user_name = Some ''San'',
               online_socket_id = ''b'', online_joined_at = ''2024-01-01 00:00:02''\<rparr>])) \<and>
   map_sum (\<lambda>err. err) snd
     (step
       \<lparr>sockets = [''a'', ''b'', ''c''],
        connectedUsers =
          [''a'' \<mapsto> \<lparr>cu_studentId = ''2021001'', cu_name = Some ''Zhang'', socketId = ''a''\<rparr>,
           ''b'' \<mapsto> \<lparr>cu_studentId = ''2021001'', cu_name = Some ''San'', socketId = ''b''\<rparr>],
        messages = [], messages_seq = 0,
        online_users =
          [\<lparr>online_student_id = ''2021001'', online_user_name = Some ''San'',
            online_socket_id = ''b'', online_joined_at = ''2024-01-01 00:00:02''\<rparr>]\<rparr>
       (Disconnect ''a''
          (Inr [\<lparr>online_student_id = ''2021001'', online_user_name = Some ''San'',
                 online_socket_id = ''b'', online_joined_at = ''2024-01-01 00:00:02''\<rparr>]))) =
   Inr [(''b'', UserLeft \<lparr>studentId = ''2021001'', name = Some ''Zhang''\<rparr>),
        (''c'', UserLeft \<lparr>studentId = ''2021001'', name = Some ''Zhang''\<rparr>),
        (''b'', UserListUpdate
           [\<lparr>entry_studentId = ''2021001'', entry_name = Some ''San'', online = True\<rparr>]),
        (''c'', UserListUpdate
           [\<lparr>entry_studentId = ''2021001'', entry_name = Some ''San'', online = True\<rparr>])]"
proof -
  let ?row = "\<lparr>online_student_id = ''2021001'', online_user_name = Some ''San'',
            online_socket_id = ''b'', online_joined_at = ''2024-01-01 00:00:02''\<rparr>"
  let ?s = "\<lparr>sockets = [''a'', ''b'', ''c''],
        connectedUsers =
          [''a'' \<mapsto> \<lparr>cu_studentId = ''2021001'', cu_name = Some ''Zhang'', socketId = ''a''\<rparr>,
           ''b'' \<mapsto> \<lparr>cu_studentId = ''2021001'', cu_name = Some ''San'', socketId = ''b''\<rparr>],
        messages = [], messages_seq = 0, online_users = [?row]\<rparr>"
  let ?v1 = "\<lparr>studentId = ''2021001'', name = Some ''Zhang''\<rparr>"
  let ?v2 = "\<lparr>studentId = ''2021001'', name = Some ''San''\<rparr>"
  have h1: "''a'' \<noteq> ''b''" by simp
  have h2: "studentId ?v2 = studentId ?v1" by simp
  have h3: "run (init\<lparr>sockets := [''a'', ''b'', ''c'']\<rparr>)
     (Join ''a'' ?v1 ''2024-01-01 00:00:01'' (Inl EngineFailure) # [] @
      Join ''b'' ?v2 ''2024-01-01 00:00:02'' (Inl EngineFailure) # []) = Inr ?s"
    by (simp add: init_def join_def insert_or_replace_online_def Let_def)
  have h4: "list_all (keeps_connection ''a'') []" by simp
  have h5: "list_all (\<lambda>e. keeps_connection ''a'' e \<and> keeps_row ''b'' (studentId ?v1) e) []"
    by simp
  have h6: "answer_ok ?s (Disconnect ''a'' (Inr [?row]))"
    by (simp add: disconnect_def delete_online_by_socket_def select_online_users_def Let_def)
  show ?thesis
    using h1 h2 h3 h4 h6 stale_disconnect_announces_leave [OF h1 h2 h3 h4 h5 h6]
    by auto
qed

end
